theory Spec2Isabelle
  imports Complex_Main
begin

section \<open>JavaScript values used by the Cloud Run deploy service\<close>

text \<open>
  Strings are \<^typ>\<open>string\<close>; a character stands for a code unit below 256. Numbers are
  either \<open>NaN\<close> or a rational: rounding to doubles and the infinities are left out, and
  no statement below depends on them. \<open>undefined\<close> and \<open>null\<close> are \<open>None\<close>.
\<close>

datatype number = NaN | Num rat

definition isInteger :: "number \<Rightarrow> bool" where
  "isInteger n = (case n of NaN \<Rightarrow> False | Num r \<Rightarrow> of_int \<lfloor>r\<rfloor> = r)"

definition num_lt :: "number \<Rightarrow> number \<Rightarrow> bool" where
  "num_lt a b = (case (a, b) of (Num x, Num y) \<Rightarrow> x < y | _ \<Rightarrow> False)"

definition num_gt :: "number \<Rightarrow> number \<Rightarrow> bool" where
  "num_gt a b = num_lt b a"

definition Math_max :: "number \<Rightarrow> number \<Rightarrow> number" where
  "Math_max a b = (case (a, b) of (Num x, Num y) \<Rightarrow> Num (max x y) | _ \<Rightarrow> NaN)"

definition num_or :: "number \<Rightarrow> number \<Rightarrow> number" where
  \<comment> \<open>\<open>a || b\<close> on numbers: \<open>NaN\<close> and \<open>0\<close> are falsy\<close>
  "num_or a b = (case a of NaN \<Rightarrow> b | Num r \<Rightarrow> if r = 0 then b else a)"

definition is_digit :: "char \<Rightarrow> bool" where
  \<comment> \<open>the class \<open>\d\<close>\<close>
  "is_digit c = (c \<in> set ''0123456789'')"

definition is_space :: "char \<Rightarrow> bool" where
  \<comment> \<open>white space and line terminators below 256: TAB, LF, VT, FF, CR, SP, NBSP\<close>
  "is_space c = (c \<in> set [CHR 0x09, CHR 0x0A, CHR 0x0B, CHR 0x0C, CHR 0x0D, CHR 0x20, CHR 0xA0])"

definition trim :: "string \<Rightarrow> string" where
  "trim s = rev (dropWhile is_space (rev (dropWhile is_space s)))"

definition truthy :: "string option \<Rightarrow> bool" where
  \<comment> \<open>a string-valued property in a condition: \<open>undefined\<close> and \<open>\"\"\<close> are falsy\<close>
  "truthy v = (case v of None \<Rightarrow> False | Some s \<Rightarrow> s \<noteq> [])"

definition blank :: "string option \<Rightarrow> bool" where
  \<comment> \<open>\<open>!v || !v.trim()\<close>\<close>
  "blank v = (case v of None \<Rightarrow> True | Some s \<Rightarrow> s = [] \<or> trim s = [])"

fun includes_str :: "string \<Rightarrow> string \<Rightarrow> bool" where
  "includes_str [] sub = (sub = [])"
| "includes_str (c # cs) sub = (take (length sub) (c # cs) = sub \<or> includes_str cs sub)"

definition digit_val :: "char \<Rightarrow> rat" where
  \<comment> \<open>the value of a digit; applied to digits only\<close>
  "digit_val c = of_nat (of_char c - 48)"

definition digits_val :: "string \<Rightarrow> rat" where
  "digits_val ds = foldl (\<lambda>a c. 10 * a + digit_val c) 0 ds"

definition parseInt :: "string \<Rightarrow> number" where
  \<comment> \<open>\<open>parseInt(s, 10)\<close>: leading white space, an optional sign, the longest run of digits\<close>
  "parseInt s =
     (let t = dropWhile is_space s;
          (neg, u) = (case t of c # r \<Rightarrow> if c = CHR ''-'' then (True, r)
                                           else if c = CHR ''+'' then (False, r) else (False, t)
                              | [] \<Rightarrow> (False, t));
          ds = takeWhile is_digit u
      in if ds = [] then NaN else Num (if neg then - digits_val ds else digits_val ds))"

definition append_unit :: "string \<Rightarrow> string" where
  \<comment> \<open>\<open>s.replace(/(\d+)$/, \"$1s\")\<close>: a string that ends in a digit gets an \<open>s\<close> appended\<close>
  "append_unit s = (if s \<noteq> [] \<and> is_digit (last s) then s @ ''s'' else s)"

definition match_duration :: "string \<Rightarrow> (string \<times> string option) option" where
  \<comment> \<open>\<open>s.match(/^(\d+)(?:\.(\d+))?s$/)\<close>: the two groups of a match\<close>
  "match_duration s =
     (let d1 = takeWhile is_digit s; r1 = dropWhile is_digit s
      in if d1 = [] then None
         else if r1 = ''s'' then Some (d1, None)
         else (case r1 of
                 c # r2 \<Rightarrow>
                   if c = CHR ''.'' \<and> takeWhile is_digit r2 \<noteq> [] \<and> dropWhile is_digit r2 = ''s''
                   then Some (d1, Some (takeWhile is_digit r2)) else None
               | [] \<Rightarrow> None))"

definition padEnd :: "nat \<Rightarrow> char \<Rightarrow> string \<Rightarrow> string" where
  "padEnd n c s = s @ replicate (n - length s) c"

section \<open>ShapeAdapter: \<open>parseTimeoutToDuration\<close> and \<open>toApiShape\<close>\<close>

record duration =
  seconds :: number
  nanos :: number

text \<open>A timeout is a string such as \<open>300s\<close>, or an object with \<open>seconds\<close> and \<open>nanos\<close>.\<close>

datatype timeout_value = TimeoutStr string | TimeoutDur duration

definition parseTimeoutToDuration :: "timeout_value option \<Rightarrow> duration option" where
  "parseTimeoutToDuration v =
     (case v of
        None \<Rightarrow> None
      | Some (TimeoutDur d) \<Rightarrow> Some d
      | Some (TimeoutStr s) \<Rightarrow>
          (let str = append_unit (trim s);
               m = match_duration str;
               secs = (case m of Some (g1, _) \<Rightarrow> parseInt g1
                              | None \<Rightarrow> num_or (parseInt str) (Num 300));
               ns = (case m of Some (_, Some g2) \<Rightarrow>
                                 if g2 \<noteq> [] then parseInt (take 9 (padEnd 9 CHR ''0'' g2)) else Num 0
                             | _ \<Rightarrow> Num 0)
           in Some \<lparr>seconds = Math_max (Num 0) secs, nanos = ns\<rparr>))"

section \<open>The service document\<close>

text \<open>
  The base template is a YAML document and the merged spec a copy of it. The properties
  the service reads or writes are record fields, absent ones \<open>None\<close>; every other
  property of an object is kept, unread, in the \<open>_other\<close> field of its record.
\<close>

datatype json = JNull | JBool bool | JNum number | JStr string | JArr "json list"
  | JObj "(string \<times> json) list"

record env_var =
  env_name :: string
  env_value :: string

record resource_limits =
  cpu :: "string option"
  memory :: "string option"
  limits_other :: "(string \<times> json) list"

record container_resources =
  limits :: "resource_limits option"
  cpuIdle :: "bool option"
  resources_other :: "(string \<times> json) list"

record container =
  image' :: "string option"
  env :: "env_var list option"
  resources :: "container_resources option"
  container_other :: "(string \<times> json) list"

record scaling_bounds =
  minInstanceCount :: "number option"
  maxInstanceCount :: "number option"
  scaling_other :: "(string \<times> json) list"

record revision_template =
  containers :: "container list option"
  scaling :: "scaling_bounds option"
  timeout :: "timeout_value option"
  template_other :: "(string \<times> json) list"

record service_spec =
  template :: "revision_template option"
  description :: "string option"
  name :: "string option"
  service_other :: "(string \<times> json) list"

text \<open>The request body: \<open>options\<close> of \<open>deploy\<close>, \<open>overrides\<close> of \<open>applyOverrides\<close>.\<close>

datatype env_item = EnvString string | EnvPair string "string option"

record resource_overrides =
  cpu_ov :: "string option"
  memory_ov :: "string option"
  cpuIdle_ov :: "bool option"

record options =
  serviceName :: "string option"
  serviceId :: "string option"
  projectId :: "string option"
  region :: "string option"
  containerImage :: "string option"
  env_ov :: "env_item list option"
  resources_ov :: "resource_overrides option"
  minInstances :: "number option"
  maxInstances :: "number option"
  timeout_ov :: "string option"
  description_ov :: "string option"

section \<open>The store\<close>

text \<open>
  Documents are objects that the service mutates in place, so they live in a store and
  are passed by reference. \<open>structuredClone\<close> allocates a fresh object holding a copy of
  the whole tree; an assignment through a reference changes the object it refers to.
\<close>

type_synonym ref = nat

record store =
  objs :: "ref \<Rightarrow> service_spec"
  next_ref :: ref

definition new_object :: "store \<Rightarrow> service_spec \<Rightarrow> ref \<times> store" where
  "new_object s v = (next_ref s, \<lparr>objs = (objs s)(next_ref s := v), next_ref = Suc (next_ref s)\<rparr>)"

definition structuredClone :: "store \<Rightarrow> ref \<Rightarrow> ref \<times> store" where
  "structuredClone s r = new_object s (objs s r)"

definition assign :: "store \<Rightarrow> ref \<Rightarrow> (service_spec \<Rightarrow> service_spec) \<Rightarrow> store" where
  \<comment> \<open>the object behind \<open>r\<close> is changed in place by \<open>f\<close>\<close>
  "assign s r f = s\<lparr>objs := (objs s)(r := f (objs s r))\<rparr>"

section \<open>OverrideMerger: \<open>applyOverrides\<close>\<close>

definition PLACEHOLDER :: string where
  "PLACEHOLDER = ''{{CONTAINER_IMAGE}}''"

definition FALLBACK_IMAGE :: string where
  "FALLBACK_IMAGE = ''gcr.io/cloudrun/container:hello''"

definition String_of :: "string option \<Rightarrow> string" where
  \<comment> \<open>\<open>String(v)\<close> and \<open>${v}\<close>\<close>
  "String_of v = (case v of None \<Rightarrow> ''undefined'' | Some s \<Rightarrow> s)"

definition or_else :: "string option \<Rightarrow> string option \<Rightarrow> string option" where
  \<comment> \<open>\<open>a || b\<close>\<close>
  "or_else a b = (if truthy a then a else b)"

definition empty_limits :: resource_limits where
  "empty_limits = \<lparr>cpu = None, memory = None, limits_other = []\<rparr>"

definition empty_template :: revision_template where
  "empty_template = \<lparr>containers = None, scaling = None, timeout = None, template_other = []\<rparr>"

definition empty_scaling :: scaling_bounds where
  "empty_scaling = \<lparr>minInstanceCount = None, maxInstanceCount = None, scaling_other = []\<rparr>"

definition default_container :: container where
  \<comment> \<open>\<open>{ image: \"\", env: [], resources: { limits: {} } }\<close>\<close>
  "default_container =
     \<lparr>image' = Some [], env = Some [],
      resources = Some \<lparr>limits = Some empty_limits, cpuIdle = None, resources_other = []\<rparr>,
      container_other = []\<rparr>"

text \<open>
  \<open>first_container\<close> is the expression \<open>merged.template.containers[0]\<close>. The two
  functions after it stand for assignments to properties of \<open>merged.template\<close> and of
  that container; lines 83 to 86 make both exist before any such assignment
  (\<open>first_container_ensure\<close> below), so the case of an absent object is never reached.
\<close>

definition first_container :: "service_spec \<Rightarrow> container option" where
  \<comment> \<open>\<open>spec.template && spec.template.containers && spec.template.containers[0]\<close>\<close>
  "first_container d =
     (case template d of
        None \<Rightarrow> None
      | Some t \<Rightarrow> (case containers t of Some (c # cs) \<Rightarrow> Some c | _ \<Rightarrow> None))"

definition map_template :: "(revision_template \<Rightarrow> revision_template) \<Rightarrow> service_spec \<Rightarrow> service_spec" where
  \<comment> \<open>an assignment to a property of \<open>merged.template\<close>\<close>
  "map_template f d = (case template d of None \<Rightarrow> d | Some t \<Rightarrow> d\<lparr>template := Some (f t)\<rparr>)"

definition map_first_container :: "(container \<Rightarrow> container) \<Rightarrow> service_spec \<Rightarrow> service_spec" where
  \<comment> \<open>an assignment to a property of \<open>container = merged.template.containers[0]\<close>\<close>
  "map_first_container f =
     map_template (\<lambda>t. case containers t of
                          Some (c # cs) \<Rightarrow> t\<lparr>containers := Some (f c # cs)\<rparr>
                        | _ \<Rightarrow> t)"

definition ensure_container :: "service_spec \<Rightarrow> service_spec" where
  \<comment> \<open>lines 83 to 86: an absent template becomes \<open>{}\<close>, an absent or empty container
      list becomes the one default container\<close>
  "ensure_container merged =
     (let t = (case template merged of None \<Rightarrow> empty_template | Some t \<Rightarrow> t);
          t' = (case containers t of
                  Some (c # cs) \<Rightarrow> t
                | _ \<Rightarrow> t\<lparr>containers := Some [default_container]\<rparr>)
      in merged\<lparr>template := Some t'\<rparr>)"

definition override_image :: "options \<Rightarrow> container \<Rightarrow> container" where
  \<comment> \<open>lines 89 to 99; \<open>null\<close> is \<open>None\<close>\<close>
  "override_image overrides container =
     (let img =
            or_else (containerImage overrides)
              (or_else (if containerImage overrides = Some [] then Some [] else None)
                 (if truthy (image' container) \<and> image' container \<noteq> Some PLACEHOLDER
                  then image' container else None))
      in if img \<noteq> None then container\<lparr>image' := img\<rparr>
         else if String_of (image' container) = PLACEHOLDER
              then container\<lparr>image' := Some FALLBACK_IMAGE\<rparr>
         else container)"

definition env_entry :: "env_item \<Rightarrow> env_var" where
  \<comment> \<open>lines 102 to 106: a string is split at its first \<open>=\<close>\<close>
  "env_entry e =
     (case e of
        EnvString str \<Rightarrow>
          \<lparr>env_name = takeWhile (\<lambda>c. c \<noteq> CHR ''='') str,
           env_value = drop 1 (dropWhile (\<lambda>c. c \<noteq> CHR ''='') str)\<rparr>
      | EnvPair n v \<Rightarrow> \<lparr>env_name = n, env_value = (case v of None \<Rightarrow> [] | Some x \<Rightarrow> x)\<rparr>)"

definition override_env :: "options \<Rightarrow> container \<Rightarrow> container" where
  \<comment> \<open>lines 101 to 107\<close>
  "override_env overrides container =
     (case env_ov overrides of
        Some (e # es) \<Rightarrow> container\<lparr>env := Some (map env_entry (e # es))\<rparr>
      | _ \<Rightarrow> container)"

definition override_resources :: "options \<Rightarrow> container \<Rightarrow> container" where
  \<comment> \<open>lines 109 to 118\<close>
  "override_resources overrides container =
     (case resources_ov overrides of
        None \<Rightarrow> container
      | Some r \<Rightarrow>
          (let res = (case resources container of
                        None \<Rightarrow> \<lparr>limits = Some empty_limits, cpuIdle = None, resources_other = []\<rparr>
                      | Some x \<Rightarrow> x);
               lm = (case limits res of None \<Rightarrow> empty_limits | Some l \<Rightarrow> l);
               lim1 = (case cpu_ov r of None \<Rightarrow> lm | Some v \<Rightarrow> lm\<lparr>cpu := Some v\<rparr>);
               lim2 = (case memory_ov r of None \<Rightarrow> lim1 | Some v \<Rightarrow> lim1\<lparr>memory := Some v\<rparr>);
               res1 = res\<lparr>limits := Some lim2\<rparr>;
               res2 = (case cpuIdle_ov r of None \<Rightarrow> res1 | Some b \<Rightarrow> res1\<lparr>cpuIdle := Some b\<rparr>)
           in container\<lparr>resources := Some res2\<rparr>))"

definition override_scaling :: "options \<Rightarrow> revision_template \<Rightarrow> revision_template" where
  \<comment> \<open>lines 120 to 126\<close>
  "override_scaling overrides t =
     (if minInstances overrides \<noteq> None \<or> maxInstances overrides \<noteq> None
      then (let sc = (case scaling t of None \<Rightarrow> empty_scaling | Some x \<Rightarrow> x);
                sc1 = (case minInstances overrides of
                         None \<Rightarrow> sc | Some n \<Rightarrow> sc\<lparr>minInstanceCount := Some n\<rparr>);
                sc2 = (case maxInstances overrides of
                         None \<Rightarrow> sc1 | Some n \<Rightarrow> sc1\<lparr>maxInstanceCount := Some n\<rparr>)
            in t\<lparr>scaling := Some sc2\<rparr>)
      else t)"

definition override_timeout :: "options \<Rightarrow> revision_template \<Rightarrow> revision_template" where
  \<comment> \<open>lines 128 to 131\<close>
  "override_timeout overrides t =
     (case timeout_ov overrides of
        None \<Rightarrow> t
      | Some v \<Rightarrow>
          t\<lparr>timeout := Some (TimeoutStr (if append_unit v = [] then ''300s'' else append_unit v))\<rparr>)"

definition override_description :: "options \<Rightarrow> service_spec \<Rightarrow> service_spec" where
  \<comment> \<open>lines 133 to 135\<close>
  "override_description overrides merged =
     (case description_ov overrides of
        None \<Rightarrow> merged
      | Some v \<Rightarrow> merged\<lparr>description := Some v\<rparr>)"

definition applyOverrides :: "store \<Rightarrow> ref \<Rightarrow> options \<Rightarrow> ref \<times> store" where
  "applyOverrides s base overrides =
     (let (merged, s1) = structuredClone s base;
          s2 = assign s1 merged ensure_container;
          s3 = assign s2 merged (map_first_container (override_image overrides));
          s4 = assign s3 merged (map_first_container (override_env overrides));
          s5 = assign s4 merged (map_first_container (override_resources overrides));
          s6 = assign s5 merged (map_template (override_scaling overrides));
          s7 = assign s6 merged (map_template (override_timeout overrides));
          s8 = assign s7 merged (override_description overrides)
      in (merged, s8))"

definition toApiShape :: "store \<Rightarrow> ref \<Rightarrow> ref \<times> store" where
  "toApiShape s serviceSpec =
     (let (spec, s1) = structuredClone s serviceSpec
      in (spec,
          assign s1 spec
            (map_template
               (\<lambda>t. if timeout t \<noteq> None
                    then t\<lparr>timeout := map_option TimeoutDur (parseTimeoutToDuration (timeout t))\<rparr>
                    else t))))"

section \<open>Errors\<close>

text \<open>
  One constructor for each error class the service throws. \<open>ApiError\<close> carries its
  message, HTTP status, code and hint. \<open>RpcError\<close> is a control-plane error that leaves
  \<open>deploy\<close> as the client threw it.
\<close>

record validation_entry =
  field :: string
  message :: string

record rpc_error =
  code :: "int option"
  err_message :: "string option"

datatype error =
    BadRequestError string
  | ValidationError "validation_entry list"
  | InternalError string
  | ApiError string nat string string
  | RpcError rpc_error

datatype error_class = BadRequestError_class | ValidationError_class | InternalError_class
  | ApiError_class | RpcError_class

definition class_of :: "error \<Rightarrow> error_class" where
  \<comment> \<open>what \<open>instanceof\<close> tells apart\<close>
  "class_of e =
     (case e of
        BadRequestError _ \<Rightarrow> BadRequestError_class
      | ValidationError _ \<Rightarrow> ValidationError_class
      | InternalError _ \<Rightarrow> InternalError_class
      | ApiError _ _ _ _ \<Rightarrow> ApiError_class
      | RpcError _ \<Rightarrow> RpcError_class)"

section \<open>TemplateStore: \<open>loadBaseTemplate\<close>\<close>

text \<open>
  The file system and the YAML parser are outside the service: \<open>template_file\<close> is what
  \<open>readFileSync\<close> gives for the template path (\<open>Inl\<close> the message of the error it
  throws), \<open>yaml_load\<close> is the parser (\<open>Inl\<close> the message of the error it throws).
  The remaining fields are the configuration and the process environment that \<open>deploy\<close>
  reads.
\<close>

record sysenv =
  template_file :: "string + string"
  yaml_load :: "string \<Rightarrow> string + service_spec"
  config_projectId :: "string option"
  config_region :: "string option"
  GCP_PROJECT_ID :: "string option"
  GCP_REGION :: "string option"

definition loadBaseTemplate :: "sysenv \<Rightarrow> store \<Rightarrow> (error + ref) \<times> store" where
  "loadBaseTemplate e s =
     (case template_file e of
        Inl msg \<Rightarrow> (Inl (InternalError (''Failed to load Cloud Run template: '' @ msg)), s)
      | Inr raw \<Rightarrow>
          (case yaml_load e raw of
             Inl msg \<Rightarrow> (Inl (InternalError (''Invalid Cloud Run template YAML: '' @ msg)), s)
           | Inr doc \<Rightarrow> (let (r, s') = new_object s doc in (Inr r, s'))))"

section \<open>Validator: \<open>validateConfig\<close>\<close>

definition VALID_CPUS :: "string list" where
  "VALID_CPUS = [''1'', ''2'', ''4'', ''8'']"

definition MEMORY_PATTERN :: "string \<Rightarrow> bool" where
  \<comment> \<open>\<open>/^\d+(Mi|Gi)$/.test(s)\<close>\<close>
  "MEMORY_PATTERN s =
     (takeWhile is_digit s \<noteq> [] \<and> (dropWhile is_digit s = ''Mi'' \<or> dropWhile is_digit s = ''Gi''))"

definition lower_alnum :: "char \<Rightarrow> bool" where
  \<comment> \<open>the class \<open>[a-z0-9]\<close>\<close>
  "lower_alnum c = (c \<in> set ''abcdefghijklmnopqrstuvwxyz0123456789'')"

definition DNS_LABEL :: "string \<Rightarrow> bool" where
  \<comment> \<open>\<open>/^[a-z0-9]([-a-z0-9]*[a-z0-9])?$/.test(s)\<close>\<close>
  "DNS_LABEL s =
     (case s of
        [] \<Rightarrow> False
      | c # cs \<Rightarrow> lower_alnum c \<and> lower_alnum (last (c # cs))
                 \<and> list_all (\<lambda>x. lower_alnum x \<or> x = CHR ''-'') cs)"

definition serviceName_errors :: "string option \<Rightarrow> validation_entry list" where
  \<comment> \<open>lines 150 to 158\<close>
  "serviceName_errors serviceId' =
     (if \<not> truthy serviceId'
      then [\<lparr>field = ''serviceName'', message = ''Service name is required''\<rparr>]
      else if \<not> DNS_LABEL (String_of serviceId')
      then [\<lparr>field = ''serviceName'',
             message = ''Service name must be DNS label (lowercase, numbers, hyphens, max 63 chars)''\<rparr>]
      else [])"

definition projectId_errors :: "string option \<Rightarrow> validation_entry list" where
  \<comment> \<open>lines 160 to 162\<close>
  "projectId_errors projectId' =
     (if blank projectId' then [\<lparr>field = ''projectId'', message = ''GCP project ID is required''\<rparr>]
      else [])"

definition region_errors :: "string option \<Rightarrow> validation_entry list" where
  \<comment> \<open>lines 164 to 166\<close>
  "region_errors region' =
     (if blank region' then [\<lparr>field = ''region'', message = ''Region is required''\<rparr>] else [])"

definition limits_errors :: "resource_limits \<Rightarrow> validation_entry list" where
  \<comment> \<open>lines 180 to 194\<close>
  "limits_errors lm =
     (if truthy (cpu lm) \<and> String_of (cpu lm) \<notin> set VALID_CPUS
      then [\<lparr>field = ''resources.cpu'', message = ''CPU must be one of: 1, 2, 4, 8''\<rparr>] else [])
     @ (if truthy (memory lm) \<and> \<not> MEMORY_PATTERN (String_of (memory lm))
        then [\<lparr>field = ''resources.memory'',
               message = ''Memory must be e.g. 256Mi, 512Mi, 1Gi, 2Gi''\<rparr>] else [])"

definition container_errors :: "service_spec \<Rightarrow> validation_entry list" where
  \<comment> \<open>lines 168 to 196\<close>
  "container_errors serviceSpec =
     (case first_container serviceSpec of
        None \<Rightarrow> [\<lparr>field = ''template'', message = ''At least one container is required''\<rparr>]
      | Some container \<Rightarrow>
          (if blank (image' container)
           then [\<lparr>field = ''containerImage'', message = ''Container image is required''\<rparr>] else [])
          @ (case resources container of
               None \<Rightarrow> []
             | Some res \<Rightarrow> (case limits res of None \<Rightarrow> [] | Some lm \<Rightarrow> limits_errors lm)))"

definition bad_count :: "number option \<Rightarrow> bool" where
  \<comment> \<open>\<open>n != null && (n < 0 || !Number.isInteger(n))\<close>\<close>
  "bad_count n = (case n of None \<Rightarrow> False | Some x \<Rightarrow> num_lt x (Num 0) \<or> \<not> isInteger x)"

definition scaling_errors :: "service_spec \<Rightarrow> validation_entry list" where
  \<comment> \<open>lines 198 to 226\<close>
  "scaling_errors serviceSpec =
     (case template serviceSpec of
        None \<Rightarrow> []
      | Some t \<Rightarrow>
          (case scaling t of
             None \<Rightarrow> []
           | Some sc \<Rightarrow>
               (if bad_count (minInstanceCount sc)
                then [\<lparr>field = ''minInstances'',
                       message = ''minInstanceCount must be a non-negative integer''\<rparr>] else [])
               @ (if bad_count (maxInstanceCount sc)
                  then [\<lparr>field = ''maxInstances'',
                         message = ''maxInstanceCount must be a non-negative integer''\<rparr>] else [])
               @ (case (minInstanceCount sc, maxInstanceCount sc) of
                    (Some mn, Some mx) \<Rightarrow>
                      if isInteger mn \<and> isInteger mx \<and> num_gt mn mx
                      then [\<lparr>field = ''scaling'',
                             message = ''minInstanceCount cannot exceed maxInstanceCount''\<rparr>]
                      else []
                  | _ \<Rightarrow> [])))"

definition validation_errors ::
  "service_spec \<Rightarrow> string option \<Rightarrow> string option \<Rightarrow> string option \<Rightarrow> validation_entry list" where
  \<comment> \<open>the array \<open>errors\<close> at line 228\<close>
  "validation_errors serviceSpec serviceId' projectId' region' =
     serviceName_errors serviceId' @ projectId_errors projectId' @ region_errors region'
     @ container_errors serviceSpec @ scaling_errors serviceSpec"

definition validateConfig ::
  "service_spec \<Rightarrow> string option \<Rightarrow> string option \<Rightarrow> string option \<Rightarrow> error + unit" where
  "validateConfig serviceSpec serviceId' projectId' region' =
     (let errors = validation_errors serviceSpec serviceId' projectId' region'
      in if length errors > 0 then Inl (ValidationError errors) else Inr ())"

section \<open>Reconciler: \<open>deploy\<close>\<close>

text \<open>
  The control plane is outside the service. A client is two functions on the remote
  state \<open>'r\<close>; each stands for a request together with the wait on the operation it
  returns, and gives the service resource or the error the client throws. The world
  holds the store, the remote state and the list of requests sent so far.
\<close>

record service =
  uri :: "string option"
  url :: "string option"
  reconciling :: "bool option"
  latestReadyRevision :: "string option"

record create_request =
  parent :: string
  create_serviceId :: "string option"
  create_service :: service_spec
  create_validateOnly :: bool

record update_request =
  update_service :: service_spec
  update_validateOnly :: bool

datatype rpc_call = CreateService create_request | UpdateService update_request

record 'r services_client =
  createService :: "create_request \<Rightarrow> 'r \<Rightarrow> (rpc_error + service) \<times> 'r"
  updateService :: "update_request \<Rightarrow> 'r \<Rightarrow> (rpc_error + service) \<times> 'r"

record 'r world =
  heap :: store
  remote :: 'r
  calls :: "rpc_call list"

record deploy_result =
  status :: string
  serviceUrl :: string
  reconciling_res :: bool
  serviceName_res :: "string option"
  region_res :: string
  latestReadyRevision_res :: "string option"

definition nullish :: "'a option \<Rightarrow> 'a option \<Rightarrow> 'a option" where
  \<comment> \<open>\<open>a ?? b\<close>\<close>
  "nullish a b = (case a of None \<Rightarrow> b | Some x \<Rightarrow> Some x)"

definition msg_includes :: "string option \<Rightarrow> string \<Rightarrow> bool" where
  \<comment> \<open>\<open>err.message?.includes(sub)\<close> in a condition\<close>
  "msg_includes m sub = (case m of None \<Rightarrow> False | Some s \<Rightarrow> includes_str s sub)"

definition already_exists :: "rpc_error \<Rightarrow> bool" where
  \<comment> \<open>line 275\<close>
  "already_exists err = (code err = Some 6 \<or> msg_includes (err_message err) ''already exists'')"

definition credentials_missing :: "rpc_error \<Rightarrow> bool" where
  \<comment> \<open>lines 286 to 288\<close>
  "credentials_missing err =
     (msg_includes (err_message err) ''Could not load the default credentials''
      \<or> msg_includes (err_message err) ''credentials''
      \<or> msg_includes (err_message err) ''authentication'')"

definition GCP_CREDENTIALS_MISSING :: error where
  \<comment> \<open>lines 290 to 295\<close>
  "GCP_CREDENTIALS_MISSING =
     ApiError
       ''Google Cloud credentials are not configured. Set up Application Default Credentials to deploy to Cloud Run.''
       503
       ''GCP_CREDENTIALS_MISSING''
       ''Run 'gcloud auth application-default login' or set GOOGLE_APPLICATION_CREDENTIALS to a service account key file. See https://cloud.google.com/docs/authentication/getting-started''"

definition deploy_result_of :: "service \<Rightarrow> string option \<Rightarrow> string \<Rightarrow> deploy_result" where
  \<comment> \<open>lines 303 to 313\<close>
  "deploy_result_of svc serviceId' region' =
     (let serviceUrl' = (case nullish (uri svc) (url svc) of None \<Rightarrow> [] | Some u \<Rightarrow> u);
          reconciling' = (reconciling svc = Some True)
      in \<lparr>status = (if reconciling' then ''RECONCILING'' else ''READY''),
          serviceUrl = serviceUrl',
          reconciling_res = reconciling',
          serviceName_res = serviceId',
          region_res = region',
          latestReadyRevision_res = latestReadyRevision svc\<rparr>)"

definition create_or_replace ::
  "'r services_client \<Rightarrow> string \<Rightarrow> string option \<Rightarrow> string \<Rightarrow> service_spec \<Rightarrow> 'r world
     \<Rightarrow> (error + deploy_result) \<times> 'r world" where
  \<comment> \<open>lines 264 to 313 of \<open>deploy\<close>\<close>
  "create_or_replace runClient parent' serviceId' region' apiSpec w =
     (let req = \<lparr>parent = parent', create_serviceId = serviceId', create_service = apiSpec,
                 create_validateOnly = False\<rparr>;
          (res, r1) = createService runClient req (remote w);
          w1 = w\<lparr>remote := r1, calls := calls w @ [CreateService req]\<rparr>
      in case res of
           Inr svc \<Rightarrow> (Inr (deploy_result_of svc serviceId' region'), w1)
         | Inl err \<Rightarrow>
             if already_exists err
             then (let fullServiceName = parent' @ ''/services/'' @ String_of serviceId';
                       serviceForUpdate = apiSpec\<lparr>name := Some fullServiceName\<rparr>;
                       upd = \<lparr>update_service = serviceForUpdate, update_validateOnly = False\<rparr>;
                       (res2, r2) = updateService runClient upd (remote w1);
                       w2 = w1\<lparr>remote := r2, calls := calls w1 @ [UpdateService upd]\<rparr>
                   in case res2 of
                        Inr svc \<Rightarrow> (Inr (deploy_result_of svc serviceId' region'), w2)
                      | Inl err2 \<Rightarrow> (Inl (RpcError err2), w2))
             else if credentials_missing err then (Inl GCP_CREDENTIALS_MISSING, w1)
             else (Inl (InternalError (''Cloud Run deployment failed: '' @ String_of (err_message err))),
                   w1))"

definition deploy ::
  "sysenv \<Rightarrow> 'r services_client \<Rightarrow> options \<Rightarrow> 'r world \<Rightarrow> (error + deploy_result) \<times> 'r world" where
  "deploy e runClient opts w =
     (let projectId' = nullish (projectId opts) (nullish (config_projectId e) (GCP_PROJECT_ID e));
          region' = (case nullish (region opts) (nullish (config_region e) (GCP_REGION e)) of
                      None \<Rightarrow> ''europe-west1'' | Some r \<Rightarrow> r);
          serviceId' = (if truthy (serviceName opts) then serviceName opts else serviceId opts)
      in if blank projectId'
         then (Inl (BadRequestError
                 ''GCP project ID is required. Set GCP_PROJECT_ID or pass projectId in the request body.''),
               w)
         else
           (case loadBaseTemplate e (heap w) of
              (Inl err, h1) \<Rightarrow> (Inl err, w\<lparr>heap := h1\<rparr>)
            | (Inr base, h1) \<Rightarrow>
                (let (serviceSpec, h2) =
                       applyOverrides h1 base (opts\<lparr>region := Some region', projectId := projectId'\<rparr>)
                 in case validateConfig (objs h2 serviceSpec) serviceId' projectId' (Some region') of
                      Inl err \<Rightarrow> (Inl err, w\<lparr>heap := h2\<rparr>)
                    | Inr _ \<Rightarrow>
                        (let parent' = ''projects/'' @ String_of projectId' @ ''/locations/'' @ region';
                             (apiSpec, h3) = toApiShape h2 serviceSpec
                         in create_or_replace runClient parent' serviceId' region' (objs h3 apiSpec)
                              (w\<lparr>heap := h3\<rparr>)))))"

section \<open>Derived notions\<close>

text \<open>
  Names for the values that \<open>deploy\<close> computes on its way, for what \<open>applyOverrides\<close>
  and \<open>toApiShape\<close> do to the document they clone, and for what the idempotence of
  \<open>deploy\<close> needs from the control plane.
\<close>

definition merged_spec :: "store \<Rightarrow> ref \<Rightarrow> options \<Rightarrow> service_spec" where
  \<comment> \<open>the document that the reference returned by \<open>applyOverrides\<close> refers to\<close>
  "merged_spec s base overrides = (case applyOverrides s base overrides of (merged, s') \<Rightarrow> objs s' merged)"

definition merge_doc :: "options \<Rightarrow> service_spec \<Rightarrow> service_spec" where
  \<comment> \<open>the assignments of \<open>applyOverrides\<close>, in order, as one change of the cloned document\<close>
  "merge_doc overrides d =
     override_description overrides
       (map_template (override_timeout overrides)
          (map_template (override_scaling overrides)
             (map_first_container (override_resources overrides)
                (map_first_container (override_env overrides)
                   (map_first_container (override_image overrides)
                      (ensure_container d))))))"

definition api_doc :: "service_spec \<Rightarrow> service_spec" where
  \<comment> \<open>the assignment of \<open>toApiShape\<close> as a change of the cloned document\<close>
  "api_doc d =
     map_template
       (\<lambda>t. if timeout t \<noteq> None
            then t\<lparr>timeout := map_option TimeoutDur (parseTimeoutToDuration (timeout t))\<rparr>
            else t) d"

definition thrown_class :: "error + 'a \<Rightarrow> error_class option" where
  "thrown_class r = (case r of Inl e \<Rightarrow> Some (class_of e) | Inr _ \<Rightarrow> None)"

definition resolved_projectId :: "sysenv \<Rightarrow> options \<Rightarrow> string option" where
  \<comment> \<open>\<open>projectId\<close> of lines 239 and 240\<close>
  "resolved_projectId e opts = nullish (projectId opts) (nullish (config_projectId e) (GCP_PROJECT_ID e))"

definition resolved_region :: "sysenv \<Rightarrow> options \<Rightarrow> string" where
  \<comment> \<open>\<open>region\<close> of lines 241 and 242\<close>
  "resolved_region e opts =
     (case nullish (region opts) (nullish (config_region e) (GCP_REGION e)) of
        None \<Rightarrow> ''europe-west1'' | Some r \<Rightarrow> r)"

definition resolved_serviceId :: "options \<Rightarrow> string option" where
  \<comment> \<open>\<open>serviceId\<close> of line 243\<close>
  "resolved_serviceId opts = (if truthy (serviceName opts) then serviceName opts else serviceId opts)"

definition deploy_overrides :: "sysenv \<Rightarrow> options \<Rightarrow> options" where
  \<comment> \<open>the object \<open>{...options, region, projectId}\<close> of lines 252 to 256\<close>
  "deploy_overrides e opts =
     opts\<lparr>region := Some (resolved_region e opts), projectId := resolved_projectId e opts\<rparr>"

definition deploy_parent :: "sysenv \<Rightarrow> options \<Rightarrow> string" where
  \<comment> \<open>\<open>parent\<close> of line 260\<close>
  "deploy_parent e opts =
     ''projects/'' @ String_of (resolved_projectId e opts) @ ''/locations/'' @ resolved_region e opts"

definition create_request_of :: "string \<Rightarrow> string option \<Rightarrow> service_spec \<Rightarrow> create_request" where
  \<comment> \<open>the argument of \<open>createService\<close> at lines 266 to 271\<close>
  "create_request_of parent' serviceId' apiSpec =
     \<lparr>parent = parent', create_serviceId = serviceId', create_service = apiSpec,
      create_validateOnly = False\<rparr>"

definition update_request_of :: "string \<Rightarrow> string option \<Rightarrow> service_spec \<Rightarrow> update_request" where
  \<comment> \<open>the argument of \<open>updateService\<close> at lines 277 to 282\<close>
  "update_request_of parent' serviceId' apiSpec =
     \<lparr>update_service = apiSpec\<lparr>name := Some (parent' @ ''/services/'' @ String_of serviceId')\<rparr>,
      update_validateOnly = False\<rparr>"

definition resource_name :: "create_request \<Rightarrow> string" where
  \<comment> \<open>the fully-qualified name of the service a create request is for\<close>
  "resource_name req = parent req @ ''/services/'' @ String_of (create_serviceId req)"

definition call_target :: "rpc_call \<Rightarrow> string \<times> string" where
  \<comment> \<open>the kind of a request and the resource name it is addressed to\<close>
  "call_target c =
     (case c of
        CreateService req \<Rightarrow> (''create'', resource_name req)
      | UpdateService req \<Rightarrow> (''update'', String_of (name (update_service req))))"

definition control_plane_contract ::
  "'r services_client \<Rightarrow> ('r \<Rightarrow> string \<Rightarrow> service option) \<Rightarrow> bool" where
  \<comment> \<open>What the idempotence of \<open>deploy\<close> needs from the control plane; \<open>lookup r n\<close> is the
      service that the remote state \<open>r\<close> holds under the name \<open>n\<close>. Creating a name that
      exists fails with code 6 (ALREADY_EXISTS) and changes nothing; a service that was
      created or updated is held under its name; updating a service that exists succeeds
      and keeps its \<open>uri\<close> and \<open>url\<close>.\<close>
  "control_plane_contract cl lookup \<longleftrightarrow>
     (\<forall>req r.
        (\<forall>old. lookup r (resource_name req) = Some old \<longrightarrow>
           (\<exists>err. createService cl req r = (Inl err, r) \<and> code err = Some 6))
        \<and> (\<forall>svc r'. createService cl req r = (Inr svc, r') \<longrightarrow>
              lookup r' (resource_name req) = Some svc))
     \<and> (\<forall>req r full.
          name (update_service req) = Some full \<longrightarrow>
            (\<forall>old. lookup r full = Some old \<longrightarrow>
               (\<exists>svc r'. updateService cl req r = (Inr svc, r') \<and> uri svc = uri old \<and> url svc = url old))
            \<and> (\<forall>svc r'. updateService cl req r = (Inr svc, r') \<longrightarrow> lookup r' full = Some svc))"

text \<open>
  The rules of the validator as a table: the rules in the order the validator checks
  them, when a rule is violated, and the entry that reports it.
\<close>

datatype rule = ServiceName | ProjectId | Region | Container | ContainerImage | Cpu | Memory
  | MinInstances | MaxInstances | MinMax







section \<open>Example inputs\<close>

definition no_overrides :: options where
  \<comment> \<open>the overrides object \<open>{}\<close>\<close>
  "no_overrides =
     \<lparr>serviceName = None, serviceId = None, projectId = None, region = None,
      containerImage = None, env_ov = None, resources_ov = None, minInstances = None,
      maxInstances = None, timeout_ov = None, description_ov = None\<rparr>"

definition empty_doc :: service_spec where
  \<comment> \<open>the document \<open>{}\<close>\<close>
  "empty_doc = \<lparr>template = None, description = None, name = None, service_other = []\<rparr>"

definition example_container :: "string option \<Rightarrow> container" where
  \<comment> \<open>a container slot holding the given image\<close>
  "example_container img =
     \<lparr>image' = img, env = Some [],
      resources = Some \<lparr>limits = Some \<lparr>cpu = Some ''1'', memory = Some ''512Mi'',
                                         limits_other = []\<rparr>,
                         cpuIdle = None, resources_other = []\<rparr>,
      container_other = [(''ports'', JArr [JObj [(''containerPort'', JNum (Num 8080))]])]\<rparr>"

definition example_template :: "string option \<Rightarrow> service_spec" where
  \<comment> \<open>a base template with one container slot holding the given image\<close>
  "example_template img =
     \<lparr>template = Some
        \<lparr>containers = Some [example_container img],
         scaling = Some \<lparr>minInstanceCount = Some (Num 0), maxInstanceCount = Some (Num 10),
                         scaling_other = []\<rparr>,
         timeout = Some (TimeoutStr ''300s''),
         template_other = []\<rparr>,
      description = None, name = None,
      service_other = [(''ingress'', JStr ''INGRESS_TRAFFIC_ALL'')]\<rparr>"


definition empty_store :: store where
  "empty_store = \<lparr>objs = (\<lambda>r. empty_doc), next_ref = 0\<rparr>"

definition store_with :: "service_spec \<Rightarrow> store" where
  \<comment> \<open>a store whose only object, at reference 0, is the given document\<close>
  "store_with d = snd (new_object empty_store d)"

definition failing_yaml :: "string \<Rightarrow> string + service_spec" where
  "failing_yaml raw = Inl ''bad indentation of a mapping entry (1:12)''"

definition unreadable_env :: sysenv where
  "unreadable_env =
     \<lparr>template_file = Inl ''ENOENT: no such file or directory'', yaml_load = failing_yaml,
      config_projectId = None, config_region = None, GCP_PROJECT_ID = None, GCP_REGION = None\<rparr>"

definition unparsable_env :: sysenv where
  "unparsable_env =
     \<lparr>template_file = Inr ''template: [containers'', yaml_load = failing_yaml,
      config_projectId = None, config_region = None, GCP_PROJECT_ID = None, GCP_REGION = None\<rparr>"

definition example_yaml :: "string \<Rightarrow> string + service_spec" where
  \<comment> \<open>a parser that reads the example template with the placeholder image\<close>
  "example_yaml raw = Inr (example_template (Some PLACEHOLDER))"

definition example_env :: sysenv where
  "example_env =
     \<lparr>template_file = Inr ''template: ...'', yaml_load = example_yaml,
      config_projectId = Some [], config_region = Some ''europe-west1'',
      GCP_PROJECT_ID = None, GCP_REGION = None\<rparr>"

definition example_options :: options where
  \<comment> \<open>the scenario of the specification\<close>
  "example_options =
     \<lparr>serviceName = Some ''demo-svc'', serviceId = None, projectId = Some ''acme-prod'',
      region = None, containerImage = Some ''repo/img:v1'', env_ov = None,
      resources_ov = Some \<lparr>cpu_ov = Some ''1'', memory_ov = Some ''512Mi'', cpuIdle_ov = None\<rparr>,
      minInstances = Some (Num 0), maxInstances = Some (Num 3), timeout_ov = None,
      description_ov = None\<rparr>"

definition invalid_memory_options :: options where
  \<comment> \<open>the scenario of the specification with \<open>resources: {memory: \"2GB\"}\<close>\<close>
  "invalid_memory_options =
     example_options\<lparr>resources_ov := Some \<lparr>cpu_ov = None, memory_ov = Some ''2GB'', cpuIdle_ov = None\<rparr>\<rparr>"

definition example_full_name :: string where
  "example_full_name = ''projects/acme-prod/locations/europe-west1/services/demo-svc''"

definition example_service :: service where
  "example_service =
     \<lparr>uri = Some ''https://demo-svc-abc123-ew.a.run.app'', url = None, reconciling = Some False,
      latestReadyRevision = Some ''projects/acme-prod/locations/europe-west1/services/demo-svc/revisions/1''\<rparr>"

definition example_result :: deploy_result where
  "example_result =
     \<lparr>status = ''READY'', serviceUrl = ''https://demo-svc-abc123-ew.a.run.app'',
      reconciling_res = False, serviceName_res = Some ''demo-svc'', region_res = ''europe-west1'',
      latestReadyRevision_res =
        Some ''projects/acme-prod/locations/europe-west1/services/demo-svc/revisions/1''\<rparr>"

definition example_url :: "string \<Rightarrow> string" where
  "example_url full = ''https://demo-svc-abc123-ew.a.run.app''"

definition already_exists_error :: rpc_error where
  "already_exists_error = \<lparr>code = Some 6, err_message = Some ''6 ALREADY_EXISTS: Resource already exists''\<rparr>"

definition reference_client :: "(string \<Rightarrow> string) \<Rightarrow> (string \<Rightarrow> service option) services_client" where
  \<comment> \<open>A control plane for the examples: the remote state maps resource names to
      services, and \<open>url_for\<close> is the endpoint it gives a new service.\<close>
  "reference_client url_for =
     \<lparr>createService =
        (\<lambda>req r. case r (resource_name req) of
                    Some old \<Rightarrow> (Inl already_exists_error, r)
                  | None \<Rightarrow>
                      (let svc = \<lparr>uri = Some (url_for (resource_name req)), url = None,
                                  reconciling = Some False,
                                  latestReadyRevision = Some (resource_name req @ ''/revisions/1'')\<rparr>
                       in (Inr svc, r(resource_name req \<mapsto> svc)))),
      updateService =
        (\<lambda>req r. case name (update_service req) of
                    None \<Rightarrow> (Inl \<lparr>code = Some 3, err_message = Some ''3 INVALID_ARGUMENT: name''\<rparr>, r)
                  | Some full \<Rightarrow>
                      (case r full of
                         None \<Rightarrow> (Inl \<lparr>code = Some 5, err_message = Some ''5 NOT_FOUND''\<rparr>, r)
                       | Some old \<Rightarrow>
                           (let svc = old\<lparr>reconciling := Some True\<rparr>
                            in (Inr svc, r(full \<mapsto> svc)))))\<rparr>"

definition example_world :: "(string \<Rightarrow> service option) world" where
  \<comment> \<open>an empty store, an empty remote state, no request sent\<close>
  "example_world = \<lparr>heap = empty_store, remote = (\<lambda>n. None), calls = []\<rparr>"

definition existing_world :: "(string \<Rightarrow> service option) world" where
  \<comment> \<open>a world whose control plane already holds the example service\<close>
  "existing_world =
     \<lparr>heap = empty_store,
      remote = (\<lambda>n. if n = example_full_name then Some example_service else None),
      calls = []\<rparr>"

definition credentials_error :: rpc_error where
  \<comment> \<open>the error of the authentication library when no credentials are found\<close>
  "credentials_error =
     \<lparr>code = None,
      err_message = Some ''Could not load the default credentials. Browse to https://cloud.google.com/docs/authentication/getting-started for more information.''\<rparr>"

definition no_credentials_client :: "unit services_client" where
  \<comment> \<open>a client without credentials: every request fails with \<open>credentials_error\<close>\<close>
  "no_credentials_client =
     \<lparr>createService = (\<lambda>req r. (Inl credentials_error, r)),
      updateService = (\<lambda>req r. (Inl credentials_error, r))\<rparr>"

definition unauthenticated_error :: rpc_error where
  \<comment> \<open>status 16 of the control plane, for a token that is no longer valid\<close>
  "unauthenticated_error =
     \<lparr>code = Some 16,
      err_message = Some ''16 UNAUTHENTICATED: Request had invalid authentication credentials.''\<rparr>"

definition stale_token_client :: "unit services_client" where
  \<comment> \<open>the service exists, and the token is rejected when the update request arrives\<close>
  "stale_token_client =
     \<lparr>createService = (\<lambda>req r. (Inl already_exists_error, r)),
      updateService = (\<lambda>req r. (Inl unauthenticated_error, r))\<rparr>"

definition offline_world :: "unit world" where
  "offline_world = \<lparr>heap = empty_store, remote = (), calls = []\<rparr>"

section \<open>Properties of the duration adapter\<close>

lemma is_digit_simps [simp]:
  "is_digit CHR ''0''" "is_digit CHR ''1''" "is_digit CHR ''2''" "is_digit CHR ''3''"
  "is_digit CHR ''4''" "is_digit CHR ''5''" "is_digit CHR ''6''" "is_digit CHR ''7''"
  "is_digit CHR ''8''" "is_digit CHR ''9''"
  "\<not> is_digit CHR ''s''" "\<not> is_digit CHR ''.''" "\<not> is_digit CHR ''a''"
  "\<not> is_digit CHR ''b''" "\<not> is_digit CHR ''c''"
  by (simp_all add: is_digit_def)

text \<open>
  C5. The duration adapter maps \<open>"300s"\<close> to 300 seconds and 0 nanoseconds, the bare
  integer \<open>"45"\<close> to 45 seconds and 0 nanoseconds, and \<open>"1.250s"\<close> to 1 second and
  250000000 nanoseconds.
\<close>

theorem parseTimeoutToDuration_examples:
  "parseTimeoutToDuration (Some (TimeoutStr ''300s'')) = Some \<lparr>seconds = Num 300, nanos = Num 0\<rparr>
   \<and> parseTimeoutToDuration (Some (TimeoutStr ''45'')) = Some \<lparr>seconds = Num 45, nanos = Num 0\<rparr>
   \<and> parseTimeoutToDuration (Some (TimeoutStr ''1.250s''))
       = Some \<lparr>seconds = Num 1, nanos = Num 250000000\<rparr>"
  by (simp add: parseTimeoutToDuration_def append_unit_def trim_def is_space_def
      match_duration_def parseInt_def digits_val_def digit_val_def padEnd_def Math_max_def
      num_or_def Let_def eval_nat_numeral)

lemma is_digit_cases:
  "is_digit c \<Longrightarrow> c = CHR ''0'' \<or> c = CHR ''1'' \<or> c = CHR ''2'' \<or> c = CHR ''3'' \<or> c = CHR ''4''
     \<or> c = CHR ''5'' \<or> c = CHR ''6'' \<or> c = CHR ''7'' \<or> c = CHR ''8'' \<or> c = CHR ''9''"
  by (simp add: is_digit_def)

lemma digit_val_bounds: "is_digit c \<Longrightarrow> 0 \<le> digit_val c \<and> digit_val c \<le> 9"
  by (auto dest!: is_digit_cases simp: digit_val_def)

lemma digit_not_space_sign: "is_digit c \<Longrightarrow> \<not> is_space c \<and> c \<noteq> CHR ''-'' \<and> c \<noteq> CHR ''+''"
  by (auto dest!: is_digit_cases simp: is_space_def)

lemma foldl_digits_bounds:
  "\<forall>c \<in> set ds. is_digit c \<Longrightarrow> 0 \<le> a \<Longrightarrow>
     0 \<le> foldl (\<lambda>a c. 10 * a + digit_val c) a ds
     \<and> foldl (\<lambda>a c. 10 * a + digit_val c) a ds < (a + 1) * 10 ^ length ds"
proof (induction ds arbitrary: a)
  case Nil
  then show ?case by simp
next
  case (Cons d ds)
  have d: "0 \<le> digit_val d" "digit_val d \<le> 9"
    using Cons.prems(1) digit_val_bounds by auto
  have a': "0 \<le> 10 * a + digit_val d" using d Cons.prems(2) by simp
  have "\<forall>c \<in> set ds. is_digit c" using Cons.prems(1) by simp
  from Cons.IH [OF this a']
  have ih: "0 \<le> foldl (\<lambda>a c. 10 * a + digit_val c) (10 * a + digit_val d) ds"
    "foldl (\<lambda>a c. 10 * a + digit_val c) (10 * a + digit_val d) ds
       < (10 * a + digit_val d + 1) * 10 ^ length ds"
    by auto
  have "(10 * a + digit_val d + 1) * 10 ^ length ds \<le> (10 * (a + 1)) * 10 ^ length ds"
    using d by (intro mult_right_mono) auto
  also have "\<dots> = (a + 1) * 10 ^ length (d # ds)" by simp
  finally have "foldl (\<lambda>a c. 10 * a + digit_val c) (10 * a + digit_val d) ds
       < (a + 1) * 10 ^ length (d # ds)"
    using ih(2) by linarith
  with ih(1) show ?case by simp
qed

lemma digits_val_bounds:
  "\<forall>c \<in> set ds. is_digit c \<Longrightarrow> 0 \<le> digits_val ds \<and> digits_val ds < 10 ^ length ds"
  using foldl_digits_bounds [of ds 0] by (simp add: digits_val_def)

lemma parseInt_digits:
  assumes "\<forall>c \<in> set ds. is_digit c" "ds \<noteq> []"
  shows "parseInt ds = Num (digits_val ds)"
proof -
  obtain c cs where ds: "ds = c # cs" using assms(2) by (cases ds) auto
  have c: "is_digit c" using assms(1) ds by simp
  have tw: "takeWhile is_digit ds = ds" using assms(1) by (simp add: takeWhile_eq_all_conv)
  show ?thesis
    using digit_not_space_sign [OF c] tw ds by (simp add: parseInt_def)
qed

lemma takeWhile_digits: "\<forall>c \<in> set (takeWhile is_digit s). is_digit c"
  by (auto dest: set_takeWhileD)

lemma nanos_digits:
  assumes "\<forall>c \<in> set g. is_digit c"
  shows "\<exists>n. parseInt (take 9 (padEnd 9 CHR ''0'' g)) = Num n \<and> 0 \<le> n \<and> n < 1000000000"
proof -
  let ?p = "take 9 (padEnd 9 CHR ''0'' g)"
  have all: "\<forall>c \<in> set ?p. is_digit c"
    using assms by (auto simp: padEnd_def dest!: in_set_takeD)
  have len: "length ?p = 9" by (simp add: padEnd_def)
  then have ne: "?p \<noteq> []" by auto
  have "digits_val ?p < 10 ^ length ?p" "0 \<le> digits_val ?p"
    using digits_val_bounds [OF all] by auto
  then show ?thesis using parseInt_digits [OF all ne] len by simp
qed

lemma seconds_clamped:
  "\<exists>s. Math_max (Num 0) (num_or (parseInt str) (Num 300)) = Num s \<and> 0 \<le> s"
  by (cases "parseInt str") (auto simp: num_or_def Math_max_def)

lemma match_duration_groups:
  "match_duration s = Some (g1, g2) \<Longrightarrow>
     g1 \<noteq> [] \<and> (\<forall>c \<in> set g1. is_digit c) \<and> (\<forall>g. g2 = Some g \<longrightarrow> (\<forall>c \<in> set g. is_digit c))"
  by (auto simp: match_duration_def Let_def split: if_splits list.splits dest: set_takeWhileD)

text \<open>
  C10. \<open>parseTimeoutToDuration\<close> returns on every string, with seconds at least 0 and
  nanoseconds from 0 up to but not including 1000000000; a string that matches neither
  the duration grammar nor a leading integer gives 300 seconds and 0 nanoseconds.
\<close>

theorem parseTimeoutToDuration_total_clamped:
  "\<exists>s n. parseTimeoutToDuration (Some (TimeoutStr v)) = Some \<lparr>seconds = Num s, nanos = Num n\<rparr>
     \<and> 0 \<le> s \<and> 0 \<le> n \<and> n < 1000000000
     \<and> (match_duration (append_unit (trim v)) = None \<and> parseInt (append_unit (trim v)) = NaN
          \<longrightarrow> s = 300 \<and> n = 0)"
proof (cases "match_duration (append_unit (trim v))")
  case None
  obtain s where s: "Math_max (Num 0) (num_or (parseInt (append_unit (trim v))) (Num 300)) = Num s"
    "0 \<le> s" using seconds_clamped by blast
  have "parseInt (append_unit (trim v)) = NaN \<longrightarrow> s = 300"
    using s(1) by (auto simp: num_or_def Math_max_def)
  then show ?thesis using None s by (simp add: parseTimeoutToDuration_def Let_def)
next
  case (Some m)
  obtain g1 g2 where m: "m = (g1, g2)" by (cases m)
  from match_duration_groups [OF Some [unfolded m]]
  have g1: "g1 \<noteq> []" "\<forall>c \<in> set g1. is_digit c"
    and g2: "\<forall>g. g2 = Some g \<longrightarrow> (\<forall>c \<in> set g. is_digit c)" by auto
  have secs: "parseInt g1 = Num (digits_val g1)" "0 \<le> digits_val g1"
    using parseInt_digits [OF g1(2) g1(1)] digits_val_bounds [OF g1(2)] by auto
  have "\<exists>n. (case g2 of Some g \<Rightarrow> if g \<noteq> [] then parseInt (take 9 (padEnd 9 CHR ''0'' g)) else Num 0
                       | None \<Rightarrow> Num 0) = Num n \<and> 0 \<le> n \<and> n < 1000000000"
    using g2 nanos_digits by (cases g2) auto
  then obtain n where n: "(case g2 of Some g \<Rightarrow> if g \<noteq> [] then parseInt (take 9 (padEnd 9 CHR ''0'' g)) else Num 0
                       | None \<Rightarrow> Num 0) = Num n" "0 \<le> n" "n < 1000000000" by blast
  show ?thesis using Some m secs n
    by (simp add: parseTimeoutToDuration_def Let_def Math_max_def)
qed

theorem parseTimeoutToDuration_total_clamped_witness:
  "match_duration (append_unit (trim ''abc'')) = None
   \<and> parseInt (append_unit (trim ''abc'')) = NaN
   \<and> parseTimeoutToDuration (Some (TimeoutStr ''abc'')) = Some \<lparr>seconds = Num 300, nanos = Num 0\<rparr>"
proof -
  have h: "match_duration (append_unit (trim ''abc'')) = None
           \<and> parseInt (append_unit (trim ''abc'')) = NaN"
    by (simp add: append_unit_def trim_def is_space_def match_duration_def parseInt_def)
  from parseTimeoutToDuration_total_clamped [of "''abc''"] h show ?thesis by auto
qed

section \<open>Properties of template loading\<close>

text \<open>
  C6, as stated: an unreadable template and an unparsable template fail with errors of
  two distinct kinds. Both failures are thrown as \<open>InternalError\<close>, so the kinds are the
  same.
\<close>

theorem loadBaseTemplate_error_class_counterexample:
  "thrown_class (fst (loadBaseTemplate unreadable_env empty_store)) = Some InternalError_class
   \<and> thrown_class (fst (loadBaseTemplate unparsable_env empty_store)) = Some InternalError_class
   \<and> \<not> (thrown_class (fst (loadBaseTemplate unreadable_env empty_store))
          \<noteq> thrown_class (fst (loadBaseTemplate unparsable_env empty_store)))"
  by (simp add: thrown_class_def loadBaseTemplate_def unreadable_env_def unparsable_env_def
      failing_yaml_def class_of_def)

text \<open>
  C6, amended: when the template cannot be read, \<open>loadBaseTemplate\<close> throws an
  \<open>InternalError\<close> whose message is \<open>Failed to load Cloud Run template: \<close> followed by
  the cause; when it is read but the parser fails, it throws an \<open>InternalError\<close> whose
  message is \<open>Invalid Cloud Run template YAML: \<close> followed by the cause. The store is not
  touched in either case, and the two errors differ in their message only.
\<close>

theorem loadBaseTemplate_failure_messages:
  "(template_file e = Inl m \<longrightarrow>
      loadBaseTemplate e s = (Inl (InternalError (''Failed to load Cloud Run template: '' @ m)), s))
   \<and> (template_file e = Inr raw \<and> yaml_load e raw = Inl m' \<longrightarrow>
      loadBaseTemplate e s = (Inl (InternalError (''Invalid Cloud Run template YAML: '' @ m')), s))
   \<and> InternalError (''Failed to load Cloud Run template: '' @ m)
       \<noteq> InternalError (''Invalid Cloud Run template YAML: '' @ m')"
  by (simp add: loadBaseTemplate_def)

theorem loadBaseTemplate_failure_messages_witness:
  "template_file unreadable_env = Inl ''ENOENT: no such file or directory''
   \<and> loadBaseTemplate unreadable_env empty_store
       = (Inl (InternalError ''Failed to load Cloud Run template: ENOENT: no such file or directory''),
          empty_store)
   \<and> template_file unparsable_env = Inr ''template: [containers''
   \<and> yaml_load unparsable_env ''template: [containers''
       = Inl ''bad indentation of a mapping entry (1:12)''
   \<and> loadBaseTemplate unparsable_env empty_store
       = (Inl (InternalError ''Invalid Cloud Run template YAML: bad indentation of a mapping entry (1:12)''),
          empty_store)"
proof -
  have r: "template_file unreadable_env = Inl ''ENOENT: no such file or directory''"
    by (simp add: unreadable_env_def)
  have p: "template_file unparsable_env = Inr ''template: [containers''"
    "yaml_load unparsable_env ''template: [containers''
       = Inl ''bad indentation of a mapping entry (1:12)''"
    by (simp_all add: unparsable_env_def failing_yaml_def)
  from loadBaseTemplate_failure_messages
         [of unreadable_env "''ENOENT: no such file or directory''" empty_store]
       loadBaseTemplate_failure_messages
         [of unparsable_env _ empty_store "''template: [containers''"
             "''bad indentation of a mapping entry (1:12)''"]
       r p
  show ?thesis by simp
qed

section \<open>Properties of the merge\<close>

lemma applyOverrides_eq:
  "applyOverrides s b ov =
     (next_ref s, \<lparr>objs = (objs s)(next_ref s := merge_doc ov (objs s b)), next_ref = Suc (next_ref s)\<rparr>)"
  by (simp add: applyOverrides_def structuredClone_def new_object_def assign_def merge_doc_def Let_def)

lemma merged_spec_eq: "merged_spec s b ov = merge_doc ov (objs s b)"
  by (simp add: merged_spec_def applyOverrides_eq)

lemma store_with_simps [simp]: "objs (store_with d) 0 = d" "next_ref (store_with d) = Suc 0"
  by (simp_all add: store_with_def new_object_def empty_store_def)

lemmas merge_defs =
  merge_doc_def ensure_container_def map_first_container_def map_template_def override_image_def
  override_env_def override_resources_def override_scaling_def override_timeout_def
  override_description_def or_else_def truthy_def String_of_def PLACEHOLDER_def FALLBACK_IMAGE_def
  first_container_def empty_template_def default_container_def empty_limits_def empty_scaling_def

text \<open>
  C2. The specification says that merging the override \<open>containerImage = ""\<close> gives a
  merged spec whose image is \<open>""\<close>. The code at two base templates: one whose slot
  holds the image \<open>gcr.io/acme/app:v1\<close> keeps that image, and one whose slot holds the
  placeholder gets the fallback image.
\<close>

theorem applyOverrides_empty_image_not_cleared:
  "Option.bind (first_container (merged_spec (store_with (example_template (Some ''gcr.io/acme/app:v1''))) 0
        (no_overrides\<lparr>containerImage := Some []\<rparr>))) image'
     = Some ''gcr.io/acme/app:v1''
   \<and> Option.bind (first_container (merged_spec (store_with (example_template (Some PLACEHOLDER))) 0
        (no_overrides\<lparr>containerImage := Some []\<rparr>))) image'
     = Some FALLBACK_IMAGE"
  by (simp add: merged_spec_eq merge_defs example_template_def example_container_def no_overrides_def)

text \<open>
  C7, as stated: \<open>applyOverrides(base, {})\<close> equals \<open>base\<close> for every base template. It
  does not for a template whose slot holds the placeholder image (the fallback image
  replaces it), nor for a document without a container (a default container is added).
\<close>

theorem applyOverrides_no_overrides_counterexample:
  "merged_spec (store_with (example_template (Some PLACEHOLDER))) 0 no_overrides
     \<noteq> objs (store_with (example_template (Some PLACEHOLDER))) 0
   \<and> merged_spec (store_with empty_doc) 0 no_overrides \<noteq> objs (store_with empty_doc) 0"
  by (simp add: merged_spec_eq merge_defs example_template_def example_container_def no_overrides_def empty_doc_def)

text \<open>
  C7, amended: for every base template that has at least one container and whose first
  container's image is not the placeholder, \<open>applyOverrides(base, {})\<close> equals \<open>base\<close> in
  every field.
\<close>

theorem applyOverrides_no_overrides_identity:
  assumes "first_container (objs s base) = Some c" and "image' c \<noteq> Some PLACEHOLDER"
  shows "merged_spec s base no_overrides = objs s base"
proof -
  obtain t cs where t: "template (objs s base) = Some t" "containers t = Some (c # cs)"
    using assms(1) by (auto simp: first_container_def split: option.splits list.splits)
  have e: "ensure_container (objs s base) = objs s base"
    using t by (simp add: ensure_container_def)
  have i: "override_image no_overrides c = c"
    using assms(2)
    by (cases "image' c")
       (auto simp: override_image_def or_else_def truthy_def no_overrides_def String_of_def
          PLACEHOLDER_def)
  show ?thesis
    using t e i
    by (simp add: merged_spec_eq merge_doc_def map_first_container_def map_template_def
        override_env_def override_resources_def override_scaling_def override_timeout_def
        override_description_def no_overrides_def)
qed

theorem applyOverrides_no_overrides_identity_witness:
  "first_container (objs (store_with (example_template (Some ''gcr.io/acme/app:v1''))) 0)
     = Some (example_container (Some ''gcr.io/acme/app:v1''))
   \<and> image' (example_container (Some ''gcr.io/acme/app:v1'')) \<noteq> Some PLACEHOLDER
   \<and> merged_spec (store_with (example_template (Some ''gcr.io/acme/app:v1''))) 0 no_overrides
       = example_template (Some ''gcr.io/acme/app:v1'')"
proof -
  let ?d = "example_template (Some ''gcr.io/acme/app:v1'')"
  let ?c = "example_container (Some ''gcr.io/acme/app:v1'')"
  have a: "first_container (objs (store_with ?d) 0) = Some ?c"
    by (simp add: first_container_def example_template_def)
  have b: "image' ?c \<noteq> Some PLACEHOLDER"
    by (simp add: example_container_def PLACEHOLDER_def)
  from applyOverrides_no_overrides_identity [OF a b] a b show ?thesis by simp
qed

text \<open>
  C8. \<open>applyOverrides\<close> never changes its base argument: for every store, every base
  template in it and every overrides object, the object behind \<open>base\<close> is the same after
  the call, and the merged spec is another object.
\<close>

theorem applyOverrides_base_unchanged:
  assumes "base < next_ref s"
  shows "objs (snd (applyOverrides s base overrides)) base = objs s base
         \<and> fst (applyOverrides s base overrides) \<noteq> base"
  using assms by (simp add: applyOverrides_eq)

theorem applyOverrides_base_unchanged_witness:
  "(0::nat) < next_ref (store_with (example_template (Some PLACEHOLDER)))
   \<and> objs (snd (applyOverrides (store_with (example_template (Some PLACEHOLDER))) 0
                  (no_overrides\<lparr>containerImage := Some ''repo/img:v1''\<rparr>))) 0
       = example_template (Some PLACEHOLDER)
   \<and> merged_spec (store_with (example_template (Some PLACEHOLDER))) 0
         (no_overrides\<lparr>containerImage := Some ''repo/img:v1''\<rparr>)
       \<noteq> example_template (Some PLACEHOLDER)"
proof -
  have a: "(0::nat) < next_ref (store_with (example_template (Some PLACEHOLDER)))" by simp
  have c: "merged_spec (store_with (example_template (Some PLACEHOLDER))) 0
             (no_overrides\<lparr>containerImage := Some ''repo/img:v1''\<rparr>)
           \<noteq> example_template (Some PLACEHOLDER)"
    by (simp add: merged_spec_eq merge_defs example_template_def example_container_def no_overrides_def)
  from applyOverrides_base_unchanged [OF a] a c show ?thesis by simp
qed

section \<open>Properties of the validator\<close>









lemmas validate_defs =
  validateConfig_def validation_errors_def serviceName_errors_def projectId_errors_def
  region_errors_def container_errors_def limits_errors_def scaling_errors_def bad_count_def
  DNS_LABEL_def lower_alnum_def MEMORY_PATTERN_def VALID_CPUS_def blank_def trim_def is_space_def
  isInteger_def num_lt_def num_gt_def is_digit_def



section \<open>Properties of the deployment\<close>

lemma toApiShape_eq:
  "toApiShape s r =
     (next_ref s, \<lparr>objs = (objs s)(next_ref s := api_doc (objs s r)), next_ref = Suc (next_ref s)\<rparr>)"
  by (simp add: toApiShape_def structuredClone_def new_object_def assign_def api_doc_def)

lemma loadBaseTemplate_Inr:
  assumes "loadBaseTemplate e h = (Inr base, h1)"
  shows "\<exists>raw doc. template_file e = Inr raw \<and> yaml_load e raw = Inr doc \<and> objs h1 base = doc"
  using assms
  by (auto simp: loadBaseTemplate_def new_object_def split: sum.splits)

lemma loadBaseTemplate_doc:
  assumes "template_file e = Inr raw" "yaml_load e raw = Inr doc"
  shows "\<exists>base h1. loadBaseTemplate e h = (Inr base, h1) \<and> objs h1 base = doc"
  using assms by (simp add: loadBaseTemplate_def new_object_def)

lemma deploy_unfold:
  assumes "\<not> blank (resolved_projectId e opts)"
    and "loadBaseTemplate e (heap w) = (Inr base, h1)"
  shows "\<exists>h2 h3. deploy e cl opts w =
     (case validateConfig (merged_spec h1 base (deploy_overrides e opts)) (resolved_serviceId opts)
             (resolved_projectId e opts) (Some (resolved_region e opts)) of
        Inl err \<Rightarrow> (Inl err, w\<lparr>heap := h2\<rparr>)
      | Inr u \<Rightarrow>
          create_or_replace cl (deploy_parent e opts) (resolved_serviceId opts) (resolved_region e opts)
            (api_doc (merged_spec h1 base (deploy_overrides e opts))) (w\<lparr>heap := h3\<rparr>))"
proof -
  obtain merged h2 where a: "applyOverrides h1 base (deploy_overrides e opts) = (merged, h2)"
    by fastforce
  then have ms: "merged_spec h1 base (deploy_overrides e opts) = objs h2 merged"
    by (simp add: merged_spec_def)
  obtain api h3 where t: "toApiShape h2 merged = (api, h3)" by fastforce
  have ad: "objs h3 api = api_doc (objs h2 merged)" using t by (auto simp: toApiShape_eq)
  have "deploy e cl opts w =
     (case validateConfig (objs h2 merged) (resolved_serviceId opts)
             (resolved_projectId e opts) (Some (resolved_region e opts)) of
        Inl err \<Rightarrow> (Inl err, w\<lparr>heap := h2\<rparr>)
      | Inr u \<Rightarrow>
          create_or_replace cl (deploy_parent e opts) (resolved_serviceId opts) (resolved_region e opts)
            (objs h3 api) (w\<lparr>heap := h3\<rparr>))"
    using assms a t
    unfolding deploy_def resolved_projectId_def resolved_region_def resolved_serviceId_def
      deploy_overrides_def deploy_parent_def Let_def
    by (simp split: sum.splits)
  then show ?thesis unfolding ms ad by blast
qed

lemma validateConfig_Inl:
  "validateConfig spec sid pid reg = Inl err \<Longrightarrow>
     err = ValidationError (validation_errors spec sid pid reg)"
  by (simp add: validateConfig_def Let_def split: if_splits)

lemma first_container_ensure: "\<exists>c. first_container (ensure_container d) = Some c"
  by (simp add: first_container_def ensure_container_def Let_def split: option.splits list.splits)

lemma first_container_map_first:
  "first_container d = Some c \<Longrightarrow> first_container (map_first_container f d) = Some (f c)"
  by (auto simp: first_container_def map_first_container_def map_template_def
      split: option.splits list.splits)

lemma first_container_map_template:
  "(\<And>t. containers (g t) = containers t) \<Longrightarrow> first_container (map_template g d) = first_container d"
  by (simp add: first_container_def map_template_def split: option.splits)

lemma first_container_merge_doc:
  "\<exists>c. first_container (merge_doc ov d)
         = Some (override_resources ov (override_env ov (override_image ov c)))"
proof -
  obtain c where c: "first_container (ensure_container d) = Some c"
    using first_container_ensure by blast
  have d: "first_container (override_description ov x) = first_container x" for x
    by (simp add: override_description_def first_container_def split: option.splits)
  have s: "containers (override_scaling ov t) = containers t"
    and t: "containers (override_timeout ov t) = containers t" for t
    by (simp_all add: override_scaling_def override_timeout_def Let_def split: option.splits)
  have "first_container (merge_doc ov d)
          = Some (override_resources ov (override_env ov (override_image ov c)))"
    unfolding merge_doc_def
    by (simp add: d first_container_map_template s t first_container_map_first c)
  then show ?thesis by blast
qed

lemma override_resources_memory:
  assumes "resources_ov ov = Some r" "memory_ov r = Some m"
  shows "\<exists>res lm. resources (override_resources ov c) = Some res \<and> limits res = Some lm
           \<and> memory lm = Some m"
  using assms by (simp add: override_resources_def Let_def split: option.splits)

lemma merge_doc_memory_error:
  assumes "resources_ov ov = Some r" "memory_ov r = Some ''2GB''"
  shows "\<lparr>field = ''resources.memory'', message = ''Memory must be e.g. 256Mi, 512Mi, 1Gi, 2Gi''\<rparr>
           \<in> set (validation_errors (merge_doc ov d) sid pid reg)"
proof -
  obtain c where c: "first_container (merge_doc ov d)
         = Some (override_resources ov (override_env ov (override_image ov c)))"
    using first_container_merge_doc by blast
  obtain res lm where r: "resources (override_resources ov (override_env ov (override_image ov c))) = Some res"
    "limits res = Some lm" "memory lm = Some ''2GB''"
    using override_resources_memory [OF assms] by blast
  have "\<not> MEMORY_PATTERN ''2GB''" by (simp add: MEMORY_PATTERN_def is_digit_def)
  then have "\<lparr>field = ''resources.memory'', message = ''Memory must be e.g. 256Mi, 512Mi, 1Gi, 2Gi''\<rparr>
           \<in> set (limits_errors lm)"
    using r(3) by (simp add: limits_errors_def truthy_def String_of_def)
  then have "\<lparr>field = ''resources.memory'', message = ''Memory must be e.g. 256Mi, 512Mi, 1Gi, 2Gi''\<rparr>
           \<in> set (container_errors (merge_doc ov d))"
    using c r(1,2) by (simp add: container_errors_def)
  then show ?thesis by (simp add: validation_errors_def)
qed

lemma deploy_rejects_invalid_spec:
  assumes "\<not> blank (resolved_projectId e opts)"
    and "loadBaseTemplate e (heap w) = (Inr base, h1)"
  shows "(\<forall>err. validateConfig (merged_spec h1 base (deploy_overrides e opts)) (resolved_serviceId opts)
                 (resolved_projectId e opts) (Some (resolved_region e opts)) = Inl err \<longrightarrow>
            fst (deploy e cl opts w) = Inl err \<and> class_of err = ValidationError_class
            \<and> calls (snd (deploy e cl opts w)) = calls w
            \<and> remote (snd (deploy e cl opts w)) = remote w)
       \<and> ((\<exists>r. resources_ov opts = Some r \<and> memory_ov r = Some ''2GB'') \<longrightarrow>
            (\<exists>errs. fst (deploy e cl opts w) = Inl (ValidationError errs)
               \<and> \<lparr>field = ''resources.memory'',
                   message = ''Memory must be e.g. 256Mi, 512Mi, 1Gi, 2Gi''\<rparr> \<in> set errs
               \<and> calls (snd (deploy e cl opts w)) = calls w
               \<and> remote (snd (deploy e cl opts w)) = remote w))"
proof -
  let ?spec = "merged_spec h1 base (deploy_overrides e opts)"
  let ?v = "validateConfig ?spec (resolved_serviceId opts) (resolved_projectId e opts)
              (Some (resolved_region e opts))"
  let ?errs = "validation_errors ?spec (resolved_serviceId opts) (resolved_projectId e opts)
              (Some (resolved_region e opts))"
  obtain h2 h3 where d: "deploy e cl opts w =
     (case ?v of
        Inl err \<Rightarrow> (Inl err, w\<lparr>heap := h2\<rparr>)
      | Inr u \<Rightarrow>
          create_or_replace cl (deploy_parent e opts) (resolved_serviceId opts) (resolved_region e opts)
            (api_doc ?spec) (w\<lparr>heap := h3\<rparr>))"
    using deploy_unfold [OF assms] by blast
  have inv: "fst (deploy e cl opts w) = Inl err \<and> class_of err = ValidationError_class
            \<and> calls (snd (deploy e cl opts w)) = calls w
            \<and> remote (snd (deploy e cl opts w)) = remote w"
    if v: "?v = Inl err" for err
  proof -
    from validateConfig_Inl [OF v] have "class_of err = ValidationError_class"
      by (simp add: class_of_def)
    with d v show ?thesis by simp
  qed
  have mem: "\<exists>errs. fst (deploy e cl opts w) = Inl (ValidationError errs)
               \<and> \<lparr>field = ''resources.memory'',
                   message = ''Memory must be e.g. 256Mi, 512Mi, 1Gi, 2Gi''\<rparr> \<in> set errs
               \<and> calls (snd (deploy e cl opts w)) = calls w
               \<and> remote (snd (deploy e cl opts w)) = remote w"
    if r: "resources_ov opts = Some r" "memory_ov r = Some ''2GB''" for r
  proof -
    have "resources_ov (deploy_overrides e opts) = Some r"
      using r(1) by (simp add: deploy_overrides_def)
    from merge_doc_memory_error [OF this r(2)]
    have m: "\<lparr>field = ''resources.memory'', message = ''Memory must be e.g. 256Mi, 512Mi, 1Gi, 2Gi''\<rparr>
               \<in> set ?errs"
      by (simp add: merged_spec_eq)
    then have "?errs \<noteq> []" by auto
    then have "?v = Inl (ValidationError ?errs)" by (simp add: validateConfig_def Let_def)
    from inv [OF this] m show ?thesis by blast
  qed
  from inv mem show ?thesis by blast
qed

lemma create_or_replace_requests:
  "create_or_replace cl p sid reg api w =
     (case createService cl (create_request_of p sid api) (remote w) of
        (Inr svc, r1) \<Rightarrow>
          (Inr (deploy_result_of svc sid reg),
           w\<lparr>remote := r1, calls := calls w @ [CreateService (create_request_of p sid api)]\<rparr>)
      | (Inl err, r1) \<Rightarrow>
          if already_exists err
          then (case updateService cl (update_request_of p sid api) r1 of
                  (Inr svc, r2) \<Rightarrow>
                    (Inr (deploy_result_of svc sid reg),
                     w\<lparr>remote := r2,
                       calls := calls w @ [CreateService (create_request_of p sid api),
                                           UpdateService (update_request_of p sid api)]\<rparr>)
                | (Inl err2, r2) \<Rightarrow>
                    (Inl (RpcError err2),
                     w\<lparr>remote := r2,
                       calls := calls w @ [CreateService (create_request_of p sid api),
                                           UpdateService (update_request_of p sid api)]\<rparr>))
          else if credentials_missing err
          then (Inl GCP_CREDENTIALS_MISSING,
                w\<lparr>remote := r1, calls := calls w @ [CreateService (create_request_of p sid api)]\<rparr>)
          else (Inl (InternalError (''Cloud Run deployment failed: '' @ String_of (err_message err))),
                w\<lparr>remote := r1, calls := calls w @ [CreateService (create_request_of p sid api)]\<rparr>))"
  by (simp add: create_or_replace_def create_request_of_def update_request_of_def Let_def
      split: prod.splits sum.splits)

lemma create_or_replace_error_class:
  assumes "fst (create_or_replace cl p sid reg api w) = Inl err"
  shows "class_of err = RpcError_class \<or> class_of err = ApiError_class
         \<or> class_of err = InternalError_class"
  using assms
  by (auto simp: create_or_replace_requests class_of_def GCP_CREDENTIALS_MISSING_def
      split: prod.splits sum.splits if_splits)

lemma deploy_early_error_sends_nothing:
  assumes "fst (deploy e cl opts w) = Inl err"
    and "class_of err = ValidationError_class \<or> class_of err = BadRequestError_class"
  shows "calls (snd (deploy e cl opts w)) = calls w \<and> remote (snd (deploy e cl opts w)) = remote w"
proof (cases "blank (resolved_projectId e opts)")
  case True
  then have "deploy e cl opts w
      = (Inl (BadRequestError
                 ''GCP project ID is required. Set GCP_PROJECT_ID or pass projectId in the request body.''),
         w)"
    unfolding deploy_def resolved_projectId_def Let_def by simp
  then show ?thesis by simp
next
  case False
  obtain x h1 where l: "loadBaseTemplate e (heap w) = (x, h1)" by fastforce
  show ?thesis
  proof (cases x)
    case (Inl err')
    then have "deploy e cl opts w = (Inl err', w\<lparr>heap := h1\<rparr>)"
      using False l unfolding deploy_def resolved_projectId_def Let_def by simp
    then show ?thesis by simp
  next
    case (Inr base)
    let ?v = "validateConfig (merged_spec h1 base (deploy_overrides e opts)) (resolved_serviceId opts)
             (resolved_projectId e opts) (Some (resolved_region e opts))"
    obtain h2 h3 where d: "deploy e cl opts w =
     (case ?v of
        Inl err \<Rightarrow> (Inl err, w\<lparr>heap := h2\<rparr>)
      | Inr u \<Rightarrow>
          create_or_replace cl (deploy_parent e opts) (resolved_serviceId opts) (resolved_region e opts)
            (api_doc (merged_spec h1 base (deploy_overrides e opts))) (w\<lparr>heap := h3\<rparr>))"
      using deploy_unfold [OF False l [unfolded Inr], of cl] by blast
    show ?thesis
    proof (cases ?v)
      case (Inl err')
      then show ?thesis using d by simp
    next
      case (Inr u)
      then have "fst (create_or_replace cl (deploy_parent e opts) (resolved_serviceId opts)
            (resolved_region e opts)
            (api_doc (merged_spec h1 base (deploy_overrides e opts))) (w\<lparr>heap := h3\<rparr>)) = Inl err"
        using d assms(1) by simp
      from create_or_replace_error_class [OF this] assms(2) show ?thesis by auto
    qed
  qed
qed

text \<open>
  C4. Validation comes before any request to the control plane. Whenever \<open>deploy\<close>
  throws a \<open>ValidationError\<close>, it has sent no request and the remote state is as it was.
  For every input whose project resolves and whose template loads: when the merged spec
  is invalid, \<open>deploy\<close> throws the \<open>ValidationError\<close> of \<open>validateConfig\<close>, without a
  request; and an input with \<open>resources.memory = "2GB"\<close> is such an input, the error
  citing \<open>resources.memory\<close>.
\<close>

theorem deploy_validates_before_network:
  "(\<forall>err. fst (deploy e cl opts w) = Inl err \<and> class_of err = ValidationError_class \<longrightarrow>
      calls (snd (deploy e cl opts w)) = calls w \<and> remote (snd (deploy e cl opts w)) = remote w)
   \<and> (\<not> blank (resolved_projectId e opts) \<and> loadBaseTemplate e (heap w) = (Inr base, h1) \<longrightarrow>
        (\<forall>err. validateConfig (merged_spec h1 base (deploy_overrides e opts))
                 (resolved_serviceId opts) (resolved_projectId e opts)
                 (Some (resolved_region e opts)) = Inl err \<longrightarrow>
            fst (deploy e cl opts w) = Inl err \<and> class_of err = ValidationError_class
            \<and> calls (snd (deploy e cl opts w)) = calls w
            \<and> remote (snd (deploy e cl opts w)) = remote w)
        \<and> ((\<exists>r. resources_ov opts = Some r \<and> memory_ov r = Some ''2GB'') \<longrightarrow>
            (\<exists>errs. fst (deploy e cl opts w) = Inl (ValidationError errs)
               \<and> \<lparr>field = ''resources.memory'',
                   message = ''Memory must be e.g. 256Mi, 512Mi, 1Gi, 2Gi''\<rparr> \<in> set errs
               \<and> calls (snd (deploy e cl opts w)) = calls w
               \<and> remote (snd (deploy e cl opts w)) = remote w)))"
  using deploy_early_error_sends_nothing [of e cl opts w]
    deploy_rejects_invalid_spec [of e opts w base h1 cl]
  by blast

lemmas resolve_defs =
  resolved_projectId_def resolved_region_def resolved_serviceId_def deploy_overrides_def
  deploy_parent_def nullish_def

lemma example_load:
  "loadBaseTemplate example_env (heap example_world)
     = (Inr 0, store_with (example_template (Some PLACEHOLDER)))"
  "loadBaseTemplate example_env (heap offline_world)
     = (Inr 0, store_with (example_template (Some PLACEHOLDER)))"
  by (simp_all add: loadBaseTemplate_def example_env_def example_yaml_def example_world_def
      offline_world_def store_with_def new_object_def empty_store_def)

theorem deploy_validates_before_network_witness:
  "\<not> blank (resolved_projectId example_env invalid_memory_options)
   \<and> loadBaseTemplate example_env (heap example_world)
       = (Inr 0, store_with (example_template (Some PLACEHOLDER)))
   \<and> resources_ov invalid_memory_options
       = Some \<lparr>cpu_ov = None, memory_ov = Some ''2GB'', cpuIdle_ov = None\<rparr>
   \<and> fst (deploy example_env (reference_client example_url) invalid_memory_options example_world)
       = Inl (ValidationError
                [\<lparr>field = ''resources.memory'',
                  message = ''Memory must be e.g. 256Mi, 512Mi, 1Gi, 2Gi''\<rparr>])
   \<and> calls (snd (deploy example_env (reference_client example_url) invalid_memory_options
                    example_world)) = []
   \<and> remote (snd (deploy example_env (reference_client example_url) invalid_memory_options
                     example_world)) = remote example_world"
proof -
  have a: "\<not> blank (resolved_projectId example_env invalid_memory_options)"
    by (simp add: resolve_defs blank_def trim_def is_space_def example_env_def
        invalid_memory_options_def example_options_def)
  note b = example_load(1)
  have r: "resources_ov invalid_memory_options
       = Some \<lparr>cpu_ov = None, memory_ov = Some ''2GB'', cpuIdle_ov = None\<rparr>"
    by (simp add: invalid_memory_options_def)
  have v: "validateConfig
             (merged_spec (store_with (example_template (Some PLACEHOLDER))) 0
                (deploy_overrides example_env invalid_memory_options))
             (resolved_serviceId invalid_memory_options)
             (resolved_projectId example_env invalid_memory_options)
             (Some (resolved_region example_env invalid_memory_options))
           = Inl (ValidationError
                [\<lparr>field = ''resources.memory'',
                  message = ''Memory must be e.g. 256Mi, 512Mi, 1Gi, 2Gi''\<rparr>])"
    by (simp add: merged_spec_eq merge_defs validate_defs resolve_defs example_template_def
        example_container_def example_env_def invalid_memory_options_def example_options_def)
  have c: "calls example_world = []" by (simp add: example_world_def)
  from deploy_validates_before_network
         [of example_env "reference_client example_url" invalid_memory_options example_world
             0 "store_with (example_template (Some PLACEHOLDER))"]
       a b v r c
  show ?thesis by simp
qed

text \<open>
  When the create request fails with an error that is not an already-exists error and
  whose message mentions credentials or authentication, \<open>deploy\<close> throws the 503
  \<open>ApiError\<close> with code \<open>GCP_CREDENTIALS_MISSING\<close> and a hint, after that one request.
\<close>

lemma deploy_classifies_credentials_on_create:
  assumes "\<not> blank (resolved_projectId e opts)"
    and "loadBaseTemplate e (heap w) = (Inr base, h1)"
    and "validateConfig (merged_spec h1 base (deploy_overrides e opts)) (resolved_serviceId opts)
           (resolved_projectId e opts) (Some (resolved_region e opts)) = Inr ()"
    and "createService cl
           (create_request_of (deploy_parent e opts) (resolved_serviceId opts)
              (api_doc (merged_spec h1 base (deploy_overrides e opts))))
           (remote w) = (Inl err, r1)"
    and "credentials_missing err" and "\<not> already_exists err"
  shows "fst (deploy e cl opts w) = Inl GCP_CREDENTIALS_MISSING
         \<and> (\<exists>msg hint. GCP_CREDENTIALS_MISSING = ApiError msg 503 ''GCP_CREDENTIALS_MISSING'' hint
                \<and> hint \<noteq> [])
         \<and> class_of GCP_CREDENTIALS_MISSING \<noteq> InternalError_class
         \<and> map call_target (calls (snd (deploy e cl opts w)))
             = map call_target (calls w)
               @ [(''create'', deploy_parent e opts @ ''/services/'' @ String_of (resolved_serviceId opts))]"
proof -
  obtain h2 h3 where d: "deploy e cl opts w =
      create_or_replace cl (deploy_parent e opts) (resolved_serviceId opts) (resolved_region e opts)
            (api_doc (merged_spec h1 base (deploy_overrides e opts))) (w\<lparr>heap := h3\<rparr>)"
    using deploy_unfold [OF assms(1,2), of cl] assms(3) by auto
  have "deploy e cl opts w =
      (Inl GCP_CREDENTIALS_MISSING,
       w\<lparr>heap := h3, remote := r1,
         calls := calls w @ [CreateService (create_request_of (deploy_parent e opts)
                   (resolved_serviceId opts) (api_doc (merged_spec h1 base (deploy_overrides e opts))))]\<rparr>)"
    unfolding d create_or_replace_requests using assms(4,5,6) by simp
  then show ?thesis
    by (simp add: GCP_CREDENTIALS_MISSING_def class_of_def call_target_def resource_name_def
        create_request_of_def)
qed

lemma deploy_Inr_D:
  assumes "fst (deploy e cl opts w) = Inr res"
  shows "\<not> blank (resolved_projectId e opts)
     \<and> (\<exists>raw doc h. template_file e = Inr raw \<and> yaml_load e raw = Inr doc
          \<and> validateConfig (merge_doc (deploy_overrides e opts) doc) (resolved_serviceId opts)
               (resolved_projectId e opts) (Some (resolved_region e opts)) = Inr ()
          \<and> deploy e cl opts w =
              create_or_replace cl (deploy_parent e opts) (resolved_serviceId opts)
                (resolved_region e opts) (api_doc (merge_doc (deploy_overrides e opts) doc))
                (w\<lparr>heap := h\<rparr>))"
proof -
  have nb: "\<not> blank (resolved_projectId e opts)"
  proof
    assume "blank (resolved_projectId e opts)"
    then have "\<exists>x. fst (deploy e cl opts w) = Inl x"
      unfolding deploy_def resolved_projectId_def Let_def by simp
    with assms show False by auto
  qed
  obtain x h1 where l: "loadBaseTemplate e (heap w) = (x, h1)" by fastforce
  have "\<exists>base. x = Inr base"
  proof (cases x)
    case (Inl err)
    then have "fst (deploy e cl opts w) = Inl err"
      using nb l unfolding deploy_def resolved_projectId_def Let_def by simp
    with assms show ?thesis by simp
  next
    case (Inr base)
    then show ?thesis by blast
  qed
  then obtain base where lb: "loadBaseTemplate e (heap w) = (Inr base, h1)" using l by blast
  obtain raw doc where doc: "template_file e = Inr raw" "yaml_load e raw = Inr doc"
    "objs h1 base = doc"
    using loadBaseTemplate_Inr [OF lb] by blast
  have ms: "merged_spec h1 base (deploy_overrides e opts) = merge_doc (deploy_overrides e opts) doc"
    by (simp add: merged_spec_eq doc(3))
  obtain h2 h3 where d: "deploy e cl opts w =
     (case validateConfig (merge_doc (deploy_overrides e opts) doc) (resolved_serviceId opts)
             (resolved_projectId e opts) (Some (resolved_region e opts)) of
        Inl err \<Rightarrow> (Inl err, w\<lparr>heap := h2\<rparr>)
      | Inr u \<Rightarrow>
          create_or_replace cl (deploy_parent e opts) (resolved_serviceId opts) (resolved_region e opts)
            (api_doc (merge_doc (deploy_overrides e opts) doc)) (w\<lparr>heap := h3\<rparr>))"
    using deploy_unfold [OF nb lb, of cl] unfolding ms by blast
  have v: "validateConfig (merge_doc (deploy_overrides e opts) doc) (resolved_serviceId opts)
             (resolved_projectId e opts) (Some (resolved_region e opts)) = Inr ()"
    using d assms
    by (cases "validateConfig (merge_doc (deploy_overrides e opts) doc) (resolved_serviceId opts)
             (resolved_projectId e opts) (Some (resolved_region e opts))") auto
  from nb doc(1,2) v d show ?thesis by auto
qed

lemma deploy_valid:
  assumes "\<not> blank (resolved_projectId e opts)"
    and "template_file e = Inr raw" "yaml_load e raw = Inr doc"
    and "validateConfig (merge_doc (deploy_overrides e opts) doc) (resolved_serviceId opts)
               (resolved_projectId e opts) (Some (resolved_region e opts)) = Inr ()"
  shows "\<exists>h. deploy e cl opts w =
              create_or_replace cl (deploy_parent e opts) (resolved_serviceId opts)
                (resolved_region e opts) (api_doc (merge_doc (deploy_overrides e opts) doc))
                (w\<lparr>heap := h\<rparr>)"
proof -
  obtain base h1 where lb: "loadBaseTemplate e (heap w) = (Inr base, h1)" "objs h1 base = doc"
    using loadBaseTemplate_doc [OF assms(2,3)] by blast
  have ms: "merged_spec h1 base (deploy_overrides e opts) = merge_doc (deploy_overrides e opts) doc"
    by (simp add: merged_spec_eq lb(2))
  show ?thesis
    using deploy_unfold [OF assms(1) lb(1), of cl] assms(4) unfolding ms by auto
qed

lemma serviceUrl_deploy_result_of:
  "uri a = uri b \<Longrightarrow> url a = url b \<Longrightarrow>
     serviceUrl (deploy_result_of a sid reg) = serviceUrl (deploy_result_of b sid reg)"
  by (simp add: deploy_result_of_def Let_def)

lemma serviceName_deploy_result_of: "serviceName_res (deploy_result_of a sid reg) = sid"
  by (simp add: deploy_result_of_def Let_def)

lemma create_or_replace_Inr_D:
  assumes c: "control_plane_contract cl lookup"
    and r: "fst (create_or_replace cl p sid reg api w) = Inr res"
  shows "\<exists>svc. res = deploy_result_of svc sid reg
           \<and> lookup (remote (snd (create_or_replace cl p sid reg api w)))
                (p @ ''/services/'' @ String_of sid) = Some svc"
proof -
  let ?creq = "create_request_of p sid api"
  let ?ureq = "update_request_of p sid api"
  have rn: "resource_name ?creq = p @ ''/services/'' @ String_of sid"
    by (simp add: resource_name_def create_request_of_def)
  have un: "name (update_service ?ureq) = Some (p @ ''/services/'' @ String_of sid)"
    by (simp add: update_request_of_def)
  obtain x r1 where cr: "createService cl ?creq (remote w) = (x, r1)" by fastforce
  show ?thesis
  proof (cases x)
    case (Inr svc)
    then have e: "create_or_replace cl p sid reg api w =
        (Inr (deploy_result_of svc sid reg),
           w\<lparr>remote := r1, calls := calls w @ [CreateService ?creq]\<rparr>)"
      using cr by (simp add: create_or_replace_requests)
    have "lookup r1 (resource_name ?creq) = Some svc"
      using c cr Inr unfolding control_plane_contract_def by blast
    then show ?thesis using e r rn by auto
  next
    case (Inl err)
    show ?thesis
    proof (cases "already_exists err")
      case False
      then have "\<exists>y. fst (create_or_replace cl p sid reg api w) = Inl y"
        using cr Inl by (simp add: create_or_replace_requests)
      with r show ?thesis by auto
    next
      case True
      obtain y r2 where up: "updateService cl ?ureq r1 = (y, r2)" by fastforce
      show ?thesis
      proof (cases y)
        case (Inl err2)
        then have "\<exists>y. fst (create_or_replace cl p sid reg api w) = Inl y"
          using cr \<open>x = Inl err\<close> True up by (simp add: create_or_replace_requests)
        with r show ?thesis by auto
      next
        case (Inr svc)
        then have e: "create_or_replace cl p sid reg api w =
          (Inr (deploy_result_of svc sid reg),
           w\<lparr>remote := r2, calls := calls w @ [CreateService ?creq, UpdateService ?ureq]\<rparr>)"
          using cr \<open>x = Inl err\<close> True up by (simp add: create_or_replace_requests)
        have "lookup r2 (p @ ''/services/'' @ String_of sid) = Some svc"
          using c up Inr un unfolding control_plane_contract_def by blast
        then show ?thesis using e r by auto
      qed
    qed
  qed
qed

lemma create_or_replace_existing:
  assumes c: "control_plane_contract cl lookup"
    and l: "lookup (remote w) (p @ ''/services/'' @ String_of sid) = Some old"
  shows "\<exists>svc r2. uri svc = uri old \<and> url svc = url old
     \<and> create_or_replace cl p sid reg api w =
          (Inr (deploy_result_of svc sid reg),
           w\<lparr>remote := r2,
             calls := calls w @ [CreateService (create_request_of p sid api),
                                 UpdateService (update_request_of p sid api)]\<rparr>)"
proof -
  let ?creq = "create_request_of p sid api"
  let ?ureq = "update_request_of p sid api"
  have rn: "resource_name ?creq = p @ ''/services/'' @ String_of sid"
    by (simp add: resource_name_def create_request_of_def)
  have un: "name (update_service ?ureq) = Some (p @ ''/services/'' @ String_of sid)"
    by (simp add: update_request_of_def)
  obtain err where cr: "createService cl ?creq (remote w) = (Inl err, remote w)" "code err = Some 6"
    using c l rn unfolding control_plane_contract_def by metis
  have ae: "already_exists err" using cr(2) by (simp add: already_exists_def)
  obtain svc r2 where up: "updateService cl ?ureq (remote w) = (Inr svc, r2)"
    "uri svc = uri old" "url svc = url old"
    using c l un unfolding control_plane_contract_def by metis
  have "create_or_replace cl p sid reg api w =
          (Inr (deploy_result_of svc sid reg),
           w\<lparr>remote := r2, calls := calls w @ [CreateService ?creq, UpdateService ?ureq]\<rparr>)"
    using cr(1) ae up(1) by (simp add: create_or_replace_requests)
  with up(2,3) show ?thesis by blast
qed

text \<open>
  C1. \<open>deploy\<close> is a create-or-replace. When the create request fails with an
  already-exists error, \<open>deploy\<close> sends an update request addressed to the
  fully-qualified name \<open>parent/services/serviceId\<close>, and returns the result of the
  update. Hence, with a control plane that meets \<open>control_plane_contract\<close>: when a call
  of \<open>deploy\<close> returns a result, a second call with the same input, started in the
  world the first call left, returns a result with the same \<open>serviceUrl\<close> and
  \<open>serviceName\<close>, and sends a create request followed by an update request to that
  name.
\<close>

theorem deploy_idempotent:
  assumes contract: "control_plane_contract cl lookup"
    and first: "fst (deploy e cl opts w) = Inr res1"
  shows "(createService cl (create_request_of p sid api) (remote w0) = (Inl err, r1)
          \<and> already_exists err
          \<and> updateService cl (update_request_of p sid api) r1 = (Inr svc, r2) \<longrightarrow>
            create_or_replace cl p sid reg api w0
              = (Inr (deploy_result_of svc sid reg),
                 w0\<lparr>remote := r2,
                    calls := calls w0 @ [CreateService (create_request_of p sid api),
                                         UpdateService (update_request_of p sid api)]\<rparr>)
            \<and> name (update_service (update_request_of p sid api))
                = Some (p @ ''/services/'' @ String_of sid))
       \<and> (\<exists>res2. fst (deploy e cl opts (snd (deploy e cl opts w))) = Inr res2
             \<and> serviceUrl res2 = serviceUrl res1
             \<and> serviceName_res res2 = serviceName_res res1
             \<and> map call_target (calls (snd (deploy e cl opts (snd (deploy e cl opts w)))))
                 = map call_target (calls (snd (deploy e cl opts w)))
                   @ [(''create'', deploy_parent e opts @ ''/services/''
                                     @ String_of (resolved_serviceId opts)),
                      (''update'', deploy_parent e opts @ ''/services/''
                                     @ String_of (resolved_serviceId opts))])"
proof -
  let ?p = "deploy_parent e opts" and ?sid = "resolved_serviceId opts"
  let ?reg = "resolved_region e opts"
  let ?full = "?p @ ''/services/'' @ String_of ?sid"
  have A: "createService cl (create_request_of p sid api) (remote w0) = (Inl err, r1)
          \<and> already_exists err
          \<and> updateService cl (update_request_of p sid api) r1 = (Inr svc, r2) \<longrightarrow>
            create_or_replace cl p sid reg api w0
              = (Inr (deploy_result_of svc sid reg),
                 w0\<lparr>remote := r2,
                    calls := calls w0 @ [CreateService (create_request_of p sid api),
                                         UpdateService (update_request_of p sid api)]\<rparr>)
            \<and> name (update_service (update_request_of p sid api))
                = Some (p @ ''/services/'' @ String_of sid)"
    by (simp add: create_or_replace_requests update_request_of_def)
  obtain raw doc h where v: "\<not> blank (resolved_projectId e opts)"
    "template_file e = Inr raw" "yaml_load e raw = Inr doc"
    "validateConfig (merge_doc (deploy_overrides e opts) doc) ?sid
               (resolved_projectId e opts) (Some ?reg) = Inr ()"
    and d1: "deploy e cl opts w =
              create_or_replace cl ?p ?sid ?reg (api_doc (merge_doc (deploy_overrides e opts) doc))
                (w\<lparr>heap := h\<rparr>)"
    using deploy_Inr_D [OF first] by blast
  let ?api = "api_doc (merge_doc (deploy_overrides e opts) doc)"
  let ?w1 = "snd (deploy e cl opts w)"
  obtain svc1 where s1: "res1 = deploy_result_of svc1 ?sid ?reg"
    "lookup (remote ?w1) ?full = Some svc1"
    using create_or_replace_Inr_D [OF contract, of ?p ?sid ?reg ?api "w\<lparr>heap := h\<rparr>" res1]
      first d1 by auto
  obtain h' where d2: "deploy e cl opts ?w1 = create_or_replace cl ?p ?sid ?reg ?api (?w1\<lparr>heap := h'\<rparr>)"
    using deploy_valid [OF v, of cl ?w1] by blast
  have l: "lookup (remote (?w1\<lparr>heap := h'\<rparr>)) ?full = Some svc1" using s1(2) by simp
  obtain svc2 r2' where s2: "uri svc2 = uri svc1" "url svc2 = url svc1"
    "create_or_replace cl ?p ?sid ?reg ?api (?w1\<lparr>heap := h'\<rparr>) =
          (Inr (deploy_result_of svc2 ?sid ?reg),
           ?w1\<lparr>heap := h', remote := r2',
             calls := calls (?w1\<lparr>heap := h'\<rparr>) @ [CreateService (create_request_of ?p ?sid ?api),
                                 UpdateService (update_request_of ?p ?sid ?api)]\<rparr>)"
    using create_or_replace_existing [OF contract l, of ?reg ?api] by auto
  have B: "fst (deploy e cl opts ?w1) = Inr (deploy_result_of svc2 ?sid ?reg)
      \<and> serviceUrl (deploy_result_of svc2 ?sid ?reg) = serviceUrl res1
      \<and> serviceName_res (deploy_result_of svc2 ?sid ?reg) = serviceName_res res1
      \<and> map call_target (calls (snd (deploy e cl opts ?w1)))
           = map call_target (calls ?w1) @ [(''create'', ?full), (''update'', ?full)]"
    unfolding d2 s2(3) s1(1)
    using serviceUrl_deploy_result_of [OF s2(1,2)]
    by (simp add: serviceName_deploy_result_of call_target_def resource_name_def
        create_request_of_def update_request_of_def String_of_def)
  from A B show ?thesis by blast
qed

lemma reference_contract: "control_plane_contract (reference_client url_for) (\<lambda>r. r)"
  unfolding control_plane_contract_def reference_client_def
  by (auto simp: already_exists_error_def Let_def split: option.splits)

lemma example_valid:
  "validateConfig
        (merged_spec (store_with (example_template (Some PLACEHOLDER))) 0
           (deploy_overrides example_env example_options))
        (resolved_serviceId example_options) (resolved_projectId example_env example_options)
        (Some (resolved_region example_env example_options)) = Inr ()"
  by (simp add: merged_spec_eq merge_defs validate_defs resolve_defs example_template_def
      example_container_def example_env_def example_options_def)

lemma example_names:
  "\<not> blank (resolved_projectId example_env example_options)"
  "deploy_parent example_env example_options = ''projects/acme-prod/locations/europe-west1''"
  "resolved_serviceId example_options = Some ''demo-svc''"
  "resolved_region example_env example_options = ''europe-west1''"
  by (simp_all add: resolve_defs blank_def trim_def is_space_def String_of_def truthy_def
      example_env_def example_options_def)

text \<open>
  Without credentials the create request fails as the authentication library does, and
  \<open>deploy\<close> throws the 503 error after that one request.
\<close>

lemma deploy_without_credentials_example:
  "fst (deploy example_env no_credentials_client example_options offline_world)
     = Inl GCP_CREDENTIALS_MISSING
   \<and> map call_target
        (calls (snd (deploy example_env no_credentials_client example_options offline_world)))
     = [(''create'', example_full_name)]"
proof -
  have c: "createService no_credentials_client
        (create_request_of (deploy_parent example_env example_options)
           (resolved_serviceId example_options)
           (api_doc (merged_spec (store_with (example_template (Some PLACEHOLDER))) 0
                       (deploy_overrides example_env example_options))))
        (remote offline_world) = (Inl credentials_error, ())"
    by (simp add: no_credentials_client_def)
  have m: "credentials_missing credentials_error"
    by (simp add: credentials_missing_def credentials_error_def msg_includes_def)
  have n: "\<not> already_exists credentials_error"
    by (simp add: already_exists_def credentials_error_def msg_includes_def)
  have t: "deploy_parent example_env example_options @ ''/services/''
             @ String_of (resolved_serviceId example_options) = example_full_name"
    by (simp add: example_names String_of_def example_full_name_def)
  have e: "calls offline_world = []" by (simp add: offline_world_def)
  from deploy_classifies_credentials_on_create
         [OF example_names(1) example_load(2) example_valid c m n] t e
  show ?thesis by simp
qed

lemma example_first:
  "fst (deploy example_env (reference_client example_url) example_options example_world)
     = Inr example_result
   \<and> map call_target
        (calls (snd (deploy example_env (reference_client example_url) example_options
                       example_world)))
     = [(''create'', example_full_name)]"
proof -
  obtain h2 h3 where d: "deploy example_env (reference_client example_url) example_options example_world
    = create_or_replace (reference_client example_url) (deploy_parent example_env example_options)
        (resolved_serviceId example_options) (resolved_region example_env example_options)
        (api_doc (merged_spec (store_with (example_template (Some PLACEHOLDER))) 0
                    (deploy_overrides example_env example_options)))
        (example_world\<lparr>heap := h3\<rparr>)"
    using deploy_unfold [OF example_names(1) example_load(1), of "reference_client example_url"]
      example_valid by auto
  show ?thesis
    unfolding d example_names
    by (simp add: create_or_replace_requests reference_client_def create_request_of_def
        resource_name_def String_of_def example_world_def deploy_result_of_def nullish_def
        example_url_def example_result_def call_target_def example_full_name_def Let_def)
qed

theorem deploy_idempotent_witness:
  "control_plane_contract (reference_client example_url) (\<lambda>r. r)
   \<and> fst (deploy example_env (reference_client example_url) example_options example_world)
       = Inr example_result
   \<and> createService (reference_client example_url)
        (create_request_of ''projects/acme-prod/locations/europe-west1'' (Some ''demo-svc'') empty_doc)
        (remote existing_world)
       = (Inl already_exists_error, remote existing_world)
   \<and> already_exists already_exists_error
   \<and> fst (updateService (reference_client example_url)
        (update_request_of ''projects/acme-prod/locations/europe-west1'' (Some ''demo-svc'') empty_doc)
        (remote existing_world))
       = Inr (example_service\<lparr>reconciling := Some True\<rparr>)
   \<and> fst (create_or_replace (reference_client example_url)
             ''projects/acme-prod/locations/europe-west1'' (Some ''demo-svc'') ''europe-west1''
             empty_doc existing_world)
       = Inr (example_result\<lparr>status := ''RECONCILING'', reconciling_res := True\<rparr>)
   \<and> name (update_service
        (update_request_of ''projects/acme-prod/locations/europe-west1'' (Some ''demo-svc'') empty_doc))
       = Some example_full_name
   \<and> (\<exists>res2. fst (deploy example_env (reference_client example_url) example_options
                    (snd (deploy example_env (reference_client example_url) example_options
                            example_world)))
               = Inr res2
             \<and> serviceUrl res2 = ''https://demo-svc-abc123-ew.a.run.app''
             \<and> serviceName_res res2 = Some ''demo-svc'')
   \<and> map call_target
        (calls (snd (deploy example_env (reference_client example_url) example_options
                       (snd (deploy example_env (reference_client example_url) example_options
                               example_world)))))
       = [(''create'', example_full_name), (''create'', example_full_name),
          (''update'', example_full_name)]"
proof -
  let ?cl = "reference_client example_url"
  let ?p = "''projects/acme-prod/locations/europe-west1''"
  let ?upd = "updateService ?cl (update_request_of ?p (Some ''demo-svc'') empty_doc)
                (remote existing_world)"
  note c = reference_contract [of example_url]
  have f: "fst (deploy example_env ?cl example_options example_world) = Inr example_result"
    and f': "map call_target (calls (snd (deploy example_env ?cl example_options example_world)))
               = [(''create'', example_full_name)]"
    using example_first by auto
  have cr: "createService ?cl (create_request_of ?p (Some ''demo-svc'') empty_doc)
              (remote existing_world) = (Inl already_exists_error, remote existing_world)"
    by (simp add: reference_client_def create_request_of_def resource_name_def String_of_def
        existing_world_def example_full_name_def)
  have ae: "already_exists already_exists_error"
    by (simp add: already_exists_def already_exists_error_def)
  have up: "fst ?upd = Inr (example_service\<lparr>reconciling := Some True\<rparr>)"
    by (simp add: reference_client_def update_request_of_def String_of_def
        existing_world_def example_full_name_def Let_def)
  then have up': "?upd = (Inr (example_service\<lparr>reconciling := Some True\<rparr>), snd ?upd)"
    by (simp add: prod_eq_iff)
  have r: "deploy_result_of (example_service\<lparr>reconciling := Some True\<rparr>) (Some ''demo-svc'')
             ''europe-west1''
           = example_result\<lparr>status := ''RECONCILING'', reconciling_res := True\<rparr>"
    by (simp add: deploy_result_of_def example_service_def example_result_def nullish_def)
  have n: "deploy_parent example_env example_options @ ''/services/''
             @ String_of (resolved_serviceId example_options) = example_full_name"
    "?p @ ''/services/'' @ String_of (Some ''demo-svc'') = example_full_name"
    by (simp_all add: example_names String_of_def example_full_name_def)
  have u: "serviceUrl example_result = ''https://demo-svc-abc123-ew.a.run.app''"
    "serviceName_res example_result = Some ''demo-svc''"
    by (simp_all add: example_result_def)
  note T = deploy_idempotent [OF c f, of ?p "Some ''demo-svc''" empty_doc existing_world
         already_exists_error "remote existing_world"
         "example_service\<lparr>reconciling := Some True\<rparr>" "snd ?upd" "''europe-west1''"]
  have A: "fst (create_or_replace ?cl ?p (Some ''demo-svc'') ''europe-west1'' empty_doc existing_world)
             = Inr (example_result\<lparr>status := ''RECONCILING'', reconciling_res := True\<rparr>)"
    "name (update_service (update_request_of ?p (Some ''demo-svc'') empty_doc))
       = Some example_full_name"
    using T cr ae up' r n(2) by simp_all
  obtain res2 where B: "fst (deploy example_env ?cl example_options
                    (snd (deploy example_env ?cl example_options example_world))) = Inr res2"
    "serviceUrl res2 = serviceUrl example_result"
    "serviceName_res res2 = serviceName_res example_result"
    "map call_target
        (calls (snd (deploy example_env ?cl example_options
                       (snd (deploy example_env ?cl example_options example_world)))))
       = map call_target (calls (snd (deploy example_env ?cl example_options example_world)))
         @ [(''create'', example_full_name), (''update'', example_full_name)]"
    using T unfolding n(1) by blast
  have B': "\<exists>res2. fst (deploy example_env ?cl example_options
                    (snd (deploy example_env ?cl example_options example_world))) = Inr res2
             \<and> serviceUrl res2 = ''https://demo-svc-abc123-ew.a.run.app''
             \<and> serviceName_res res2 = Some ''demo-svc''"
    using B(1,2,3) u by auto
  have C: "map call_target
        (calls (snd (deploy example_env ?cl example_options
                       (snd (deploy example_env ?cl example_options example_world)))))
       = [(''create'', example_full_name), (''create'', example_full_name),
          (''update'', example_full_name)]"
    using B(4) f' by simp
  from c f cr ae up A B' C show ?thesis by blast
qed

text \<open>
  C9. The specification says that every deploy whose control-plane call fails because
  credentials are absent or invalid surfaces the 503 error with remediation guidance.
  The code, when the create request is answered with already-exists and the update
  request that follows is rejected for its credentials: the error of the update request
  leaves \<open>deploy\<close> as the client threw it, although its message is one that the create
  path classifies.
\<close>

theorem deploy_update_credentials_unclassified:
  "credentials_missing unauthenticated_error
   \<and> fst (deploy example_env stale_token_client example_options offline_world)
       = Inl (RpcError unauthenticated_error)
   \<and> fst (deploy example_env stale_token_client example_options offline_world)
       \<noteq> Inl GCP_CREDENTIALS_MISSING
   \<and> map call_target
        (calls (snd (deploy example_env stale_token_client example_options offline_world)))
       = [(''create'', example_full_name), (''update'', example_full_name)]"
proof -
  obtain h2 h3 where d: "deploy example_env stale_token_client example_options offline_world
    = create_or_replace stale_token_client (deploy_parent example_env example_options)
        (resolved_serviceId example_options) (resolved_region example_env example_options)
        (api_doc (merged_spec (store_with (example_template (Some PLACEHOLDER))) 0
                    (deploy_overrides example_env example_options)))
        (offline_world\<lparr>heap := h3\<rparr>)"
    using deploy_unfold [OF example_names(1) example_load(2), of stale_token_client]
      example_valid by auto
  have m: "credentials_missing unauthenticated_error"
    by (simp add: credentials_missing_def unauthenticated_error_def msg_includes_def)
  have ae: "already_exists already_exists_error"
    by (simp add: already_exists_def already_exists_error_def)
  have r: "fst (deploy example_env stale_token_client example_options offline_world)
       = Inl (RpcError unauthenticated_error)"
    "map call_target
        (calls (snd (deploy example_env stale_token_client example_options offline_world)))
       = [(''create'', example_full_name), (''update'', example_full_name)]"
    unfolding d example_names
    using ae
    by (simp_all add: create_or_replace_requests stale_token_client_def offline_world_def
        call_target_def resource_name_def create_request_of_def update_request_of_def
        String_of_def example_full_name_def)
  have "RpcError unauthenticated_error \<noteq> GCP_CREDENTIALS_MISSING"
    by (simp add: GCP_CREDENTIALS_MISSING_def)
  with m r show ?thesis by simp
qed

end
